theory Spec2Isabelle
  imports Main "HOL-Library.Word"
begin

unbundle bit_operations_syntax

section \<open>Errors\<close>

text \<open>
  The exceptions of \<^verbatim>\<open>patcherex.py\<close> (\<^verbatim>\<open>MissingBlockException\<close>,
  \<^verbatim>\<open>DetourException\<close>, \<^verbatim>\<open>InvalidVAddrException\<close>), the failed \<^verbatim>\<open>assert\<close>,
  and the exceptions the Python runtime raises on the paths modelled here. A
  \<^verbatim>\<open>DetourException\<close> carries its first argument, the cause string.
\<close>

datatype error =
    MissingBlockException
  | DetourException string
  | InvalidVAddrException int
  | AssertionError
  | IndexError
  | TypeError
  | AttributeError
  | StructError
  | AssemblerError

section \<open>Basic-block locator\<close>

text \<open>
  A node of the control-flow graph, as far as the patcher reads it:
  \<^verbatim>\<open>n.addr\<close> and \<^verbatim>\<open>n.instruction_addrs\<close>.
\<close>

record cfg_node =
  addr :: int
  instruction_addrs :: "int list"

text \<open>
  \<^verbatim>\<open>get_ordered_nodes\<close>: the loop over \<^verbatim>\<open>sorted(self.cfg.nodes(), key=lambda x: x.addr)\<close>
  with its two variables \<^verbatim>\<open>prev_addr\<close> (initially \<^verbatim>\<open>None\<close>) and \<^verbatim>\<open>ordered_nodes\<close>.
\<close>

fun ordered_nodes_loop :: "int option \<Rightarrow> int list \<Rightarrow> cfg_node list \<Rightarrow> int list" where
  "ordered_nodes_loop prev_addr ordered_nodes [] = ordered_nodes"
| "ordered_nodes_loop prev_addr ordered_nodes (n # ns) =
     (if Some (addr n) = prev_addr then ordered_nodes_loop prev_addr ordered_nodes ns
      else ordered_nodes_loop (Some (addr n)) (ordered_nodes @ [addr n]) ns)"

definition get_ordered_nodes :: "cfg_node list \<Rightarrow> int list" where
  "get_ordered_nodes nodes = ordered_nodes_loop None [] (sort_key addr nodes)"

text \<open>
  \<^verbatim>\<open>bisect.bisect_right(a, x)\<close> of the Python standard library: the binary search
  \<^verbatim>\<open>while lo < hi: mid = (lo+hi)//2; if x < a[mid]: hi = mid else: lo = mid+1\<close>,
  started at \<^verbatim>\<open>lo = 0\<close>, \<^verbatim>\<open>hi = len(a)\<close>.
\<close>

function bisect_loop :: "int list \<Rightarrow> int \<Rightarrow> nat \<Rightarrow> nat \<Rightarrow> nat" where
  "bisect_loop a x lo hi =
     (if lo < hi then
        (let mid = (lo + hi) div 2
         in if x < a ! mid then bisect_loop a x lo mid else bisect_loop a x (mid + 1) hi)
      else lo)"
  by pat_completeness auto
termination
  by (relation "measure (\<lambda>(a, x, lo, hi). hi - lo)") auto

declare bisect_loop.simps [simp del]

definition bisect_right :: "int list \<Rightarrow> int \<Rightarrow> nat" where
  "bisect_right a x = bisect_loop a x 0 (length a)"

text \<open>
  Python's \<^verbatim>\<open>xs[i]\<close>: a negative index counts from the end, an index out of range
  raises \<^verbatim>\<open>IndexError\<close>.
\<close>

definition py_index :: "'a list \<Rightarrow> int \<Rightarrow> error + 'a" where
  "py_index xs i =
     (if 0 \<le> i \<and> i < int (length xs) then Inr (xs ! nat i)
      else if i < 0 \<and> - int (length xs) \<le> i then Inr (xs ! nat (int (length xs) + i))
      else Inl IndexError)"

text \<open>
  \<^verbatim>\<open>get_block_containing_inst\<close>. The graph's \<^verbatim>\<open>cfg.get_any_node(a, is_syscall=False)\<close>
  belongs to the analysis library and is a parameter; it answers \<^verbatim>\<open>None\<close> when it has
  no such node, and reading \<^verbatim>\<open>.instruction_addrs\<close> of \<^verbatim>\<open>None\<close> raises \<^verbatim>\<open>AttributeError\<close>.
\<close>

definition get_block_containing_inst ::
  "(int \<Rightarrow> cfg_node option) \<Rightarrow> int list \<Rightarrow> int \<Rightarrow> error + int" where
  "get_block_containing_inst any_node ordered_nodes inst_addr =
     (let index = int (bisect_right ordered_nodes inst_addr) - 1
      in case py_index ordered_nodes index of
           Inl e \<Rightarrow> Inl e
         | Inr a \<Rightarrow>
             (case any_node a of
                None \<Rightarrow> Inl AttributeError
              | Some node \<Rightarrow>
                  if inst_addr \<in> set (instruction_addrs node) then Inr (addr node)
                  else Inl MissingBlockException))"

section \<open>Byte strings\<close>

text \<open>
  A Python 2 \<^verbatim>\<open>str\<close> is a sequence of bytes, and so is a \<^typ>\<open>string\<close> here. A slice
  \<^verbatim>\<open>s[i:j]\<close> counts a negative bound from the end and clips both bounds to the string.
\<close>

definition py_slice :: "'a list \<Rightarrow> int \<Rightarrow> int \<Rightarrow> 'a list" where
  "py_slice xs i j =
     (let n = int (length xs);
          i' = (if i < 0 then max 0 (n + i) else min i n);
          j' = (if j < 0 then max 0 (n + j) else min j n)
      in take (nat (j' - i')) (drop (nat i') xs))"

text \<open>\<^verbatim>\<open>s.ljust(width, fillchar)\<close>.\<close>

definition ljust :: "string \<Rightarrow> nat \<Rightarrow> char \<Rightarrow> string" where
  "ljust s width fillchar = s @ replicate (width - length s) fillchar"

text \<open>
  Modelled from the spec: the helpers \<^verbatim>\<open>utils.round_up_to_page\<close>, \<^verbatim>\<open>utils.pad_str\<close> and
  \<^verbatim>\<open>utils.str_overwrite\<close> of the module \<^verbatim>\<open>utils\<close>, which the source imports. The spec starts
  the file cursor "at a page-aligned offset past the original image" (page \<^verbatim>\<open>0x1000\<close>),
  pads the image "to 16-byte alignment" with NUL bytes, and overwrites bytes at a file
  offset; called without an offset, \<^verbatim>\<open>str_overwrite\<close> appends ("append a verbatim copy of
  every original program header to end-of-file"). The result of \<^verbatim>\<open>str_overwrite\<close> is a new
  string: Python strings are immutable.
\<close>

definition round_up_to_page :: "nat \<Rightarrow> nat" where
  "round_up_to_page n = (n + 0x1000 - 1) div 0x1000 * 0x1000"

definition pad_str :: "string \<Rightarrow> nat \<Rightarrow> string" where
  "pad_str tstr align =
     (if length tstr mod align = 0 then tstr
      else tstr @ replicate (align - length tstr mod align) (CHR 0x00))"

definition str_overwrite :: "string \<Rightarrow> string \<Rightarrow> nat option \<Rightarrow> string" where
  "str_overwrite tstr new pos =
     (let q = (case pos of None \<Rightarrow> length tstr | Some k \<Rightarrow> k)
      in take q tstr @ new @ drop (q + length new) tstr)"

subsection \<open>\<^verbatim>\<open>struct.pack\<close> and \<^verbatim>\<open>struct.unpack\<close>, little-endian\<close>

fun pack_le :: "nat \<Rightarrow> nat \<Rightarrow> string" where
  "pack_le 0 v = []"
| "pack_le (Suc k) v = char_of (v mod 256) # pack_le k (v div 256)"

fun unpack_le :: "string \<Rightarrow> nat" where
  "unpack_le [] = 0"
| "unpack_le (c # cs) = of_char c + 256 * unpack_le cs"

text \<open>
  \<^verbatim>\<open>struct.pack("<I", v)\<close> and \<^verbatim>\<open>struct.pack("<H", v)\<close> raise \<^verbatim>\<open>struct.error\<close> when the value
  does not fit, or is \<^verbatim>\<open>None\<close>; \<^verbatim>\<open>struct.unpack\<close> raises it when the buffer has not exactly
  the length of the format.
\<close>

definition pack_I :: "nat option \<Rightarrow> error + string" where
  "pack_I v = (case v of None \<Rightarrow> Inl StructError
               | Some n \<Rightarrow> if n < 2 ^ 32 then Inr (pack_le 4 n) else Inl StructError)"

definition pack_H :: "nat \<Rightarrow> error + string" where
  "pack_H n = (if n < 2 ^ 16 then Inr (pack_le 2 n) else Inl StructError)"

fun pack_Is :: "nat option list \<Rightarrow> error + string" where
  "pack_Is [] = Inr []"
| "pack_Is (v # vs) =
     (case pack_I v of Inl e \<Rightarrow> Inl e
      | Inr b \<Rightarrow> (case pack_Is vs of Inl e \<Rightarrow> Inl e | Inr bs \<Rightarrow> Inr (b @ bs)))"

text \<open>\<^verbatim>\<open>struct.pack("<IIIIIIII", *segment)\<close>: exactly eight values.\<close>

definition pack_IIIIIIII :: "nat option list \<Rightarrow> error + string" where
  "pack_IIIIIIII vs = (if length vs = 8 then pack_Is vs else Inl StructError)"

definition unpack_H :: "string \<Rightarrow> error + nat" where
  "unpack_H buf = (if length buf = 2 then Inr (unpack_le buf) else Inl StructError)"

definition unpack_IIIIIIII :: "string \<Rightarrow> error + nat list" where
  "unpack_IIIIIIII buf =
     (if length buf = 32
      then Inr (map (\<lambda>k. unpack_le (take 4 (drop (4 * k) buf))) [0..<8])
      else Inl StructError)"

text \<open>
  The 52-byte header read by \<^verbatim>\<open>dump_segments\<close> with the format
  \<^verbatim>\<open>"<xxxxxxxxxxxxxxxxHHLLLLLHHHHHH"\<close>; of its thirteen fields the code uses
  \<^verbatim>\<open>cgcef_phoff\<close> (offset \<^verbatim>\<open>0x1C\<close>), \<^verbatim>\<open>cgcef_phentsize\<close> (\<^verbatim>\<open>0x2A\<close>) and \<^verbatim>\<open>cgcef_phnum\<close> (\<^verbatim>\<open>0x2C\<close>).
\<close>

record cgcef_header =
  cgcef_phoff :: nat
  cgcef_phentsize :: nat
  cgcef_phnum :: nat

definition header_size :: nat where
  "header_size = 16 + 2 * 2 + 4 * 5 + 2 * 6"

definition unpack_header :: "string \<Rightarrow> error + cgcef_header" where
  "unpack_header buf =
     (if length buf = header_size
      then Inr \<lparr> cgcef_phoff = unpack_le (take 4 (drop 0x1C buf)),
                 cgcef_phentsize = unpack_le (take 2 (drop 0x2A buf)),
                 cgcef_phnum = unpack_le (take 2 (drop 0x2C buf)) \<rparr>
      else Inl StructError)"

section \<open>Patches and the patcher's state\<close>

text \<open>
  The four patch classes, each with the arguments of its constructor in their order; the
  last one is the optional \<^verbatim>\<open>name\<close>.
\<close>

datatype patch =
    InlinePatch int string "string option"
  | AddDataPatch string "string option"
  | AddCodePatch string "string option"
  | InsertCodePatch int string "string option"

text \<open>
  The attributes of a \<^verbatim>\<open>Patcher\<close> object. An attribute the constructor sets to \<^verbatim>\<open>None\<close> is an
  option, except \<^verbatim>\<open>ncontent\<close>: \<^verbatim>\<open>setup_headers\<close> assigns it before anything reads it.
\<close>

record patcher =
  ocontent :: string
  ncontent :: string
  segments :: "nat list list option"
  original_header_end :: "nat option"
  patches :: "patch list"
  name_map :: "string \<rightharpoonup> int"
  added_code :: string
  added_data :: string
  curr_code_position :: int
  curr_data_position :: int
  curr_file_position :: nat
  added_code_file_start :: "nat option"
  added_data_file_start :: "nat option"
  ordered_nodes :: "int list"

definition patched_tag :: string where
  "patched_tag = ''SHELLPHISH'' @ [CHR 0x00]"

definition added_code_segment :: int where
  "added_code_segment = 0x09000000"

definition added_data_segment :: int where
  "added_data_segment = 0x09100000"

section \<open>Header rewriter\<close>

definition is_patched :: "patcher \<Rightarrow> bool" where
  "is_patched p \<longleftrightarrow>
     py_slice (ncontent p) 0x34 (0x34 + int (length patched_tag)) = patched_tag"

definition pt_types :: "nat list" where
  "pt_types = [0, 1, 6, 0x60000000 + 0x474e551, 0x6ccccccc]"

definition phent_size :: nat where
  "phent_size = 8 * 4"

text \<open>
  The loop of \<^verbatim>\<open>dump_segments\<close> over \<^verbatim>\<open>xrange(0, cgcef_phnum)\<close>: each program header is
  sliced out of \<^verbatim>\<open>ncontent\<close>, unpacked, and its \<^verbatim>\<open>p_type\<close> asserted to be a known one.
\<close>

fun dump_segments_loop :: "string \<Rightarrow> nat \<Rightarrow> nat list \<Rightarrow> error + nat list list" where
  "dump_segments_loop content phoff [] = Inr []"
| "dump_segments_loop content phoff (i # rest) =
     (let hdr = py_slice content (int (phoff + phent_size * i))
                  (int (phoff + phent_size * i + phent_size))
      in case unpack_IIIIIIII hdr of
           Inl e \<Rightarrow> Inl e
         | Inr segment \<Rightarrow>
             if segment ! 0 \<notin> set pt_types then Inl AssertionError
             else (case dump_segments_loop content phoff rest of
                     Inl e \<Rightarrow> Inl e
                   | Inr segs \<Rightarrow> Inr (segment # segs)))"

definition dump_segments :: "string \<Rightarrow> error + nat list list" where
  "dump_segments content =
     (case unpack_header (py_slice content 0 (int header_size)) of
        Inl e \<Rightarrow> Inl e
      | Inr h \<Rightarrow>
          if cgcef_phnum h = 0 then Inl AssertionError
          else if cgcef_phentsize h \<noteq> phent_size then Inl AssertionError
          else dump_segments_loop content (cgcef_phoff h) [0..<cgcef_phnum h])"

text \<open>
  The loop of \<^verbatim>\<open>setup_headers\<close> that copies the program headers to the end of the file:
  \<^verbatim>\<open>str_overwrite\<close> without an offset.
\<close>

fun copy_segments :: "string \<Rightarrow> nat list list \<Rightarrow> error + string" where
  "copy_segments content [] = Inr content"
| "copy_segments content (segment # rest) =
     (case pack_IIIIIIII (map Some segment) of
        Inl e \<Rightarrow> Inl e
      | Inr b \<Rightarrow> copy_segments (str_overwrite content b None) rest)"

definition setup_headers :: "patcher \<Rightarrow> error + patcher" where
  "setup_headers p =
     (let p0 = p\<lparr>ncontent := ocontent p\<rparr>
      in if is_patched p0 then Inr p0
         else
           (case dump_segments (ncontent p0) of
              Inl e \<Rightarrow> Inl e
            | Inr segs \<Rightarrow>
                (let c1 = pad_str (ncontent p0) 0x10
                 in case pack_I (Some (length c1)) of
                      Inl e \<Rightarrow> Inl e
                    | Inr b \<Rightarrow>
                        (case copy_segments (str_overwrite c1 b (Some 0x1C)) segs of
                           Inl e \<Rightarrow> Inl e
                         | Inr c3 \<Rightarrow>
                             Inr (p0\<lparr>segments := Some segs,
                                     original_header_end := Some (length c3),
                                     ncontent := str_overwrite c3 patched_tag (Some 0x34)\<rparr>)))))"

text \<open>
  \<^verbatim>\<open>set_added_segment_headers\<close>. With \<^verbatim>\<open>original_header_end\<close> still \<^verbatim>\<open>None\<close> (an image that
  was already patched when it was opened), \<^verbatim>\<open>self.original_header_end + 32\<close> raises
  \<^verbatim>\<open>TypeError\<close>.
\<close>

definition set_added_segment_headers :: "patcher \<Rightarrow> error + patcher" where
  "set_added_segment_headers p =
     (if py_slice (ncontent p) 0x34 (0x34 + int (length patched_tag)) \<noteq> patched_tag
      then Inl AssertionError
      else
        (let data_segment_header =
               [Some 1, added_data_file_start p, Some (nat added_data_segment), Some 0,
                Some (length (added_data p)), Some (length (added_data p)), Some 0x6, Some 0x0];
             code_segment_header =
               [Some 1, added_code_file_start p, Some (nat added_code_segment), Some 0,
                Some (length (added_code p)), Some (length (added_code p)), Some 0x5, Some 0x0]
         in case pack_IIIIIIII code_segment_header of
              Inl e \<Rightarrow> Inl e
            | Inr code_bytes \<Rightarrow>
                (let c1 = str_overwrite (ncontent p) code_bytes (original_header_end p)
                 in case pack_IIIIIIII data_segment_header of
                      Inl e \<Rightarrow> Inl e
                    | Inr data_bytes \<Rightarrow>
                        (case original_header_end p of
                           None \<Rightarrow> Inl TypeError
                         | Some ohe \<Rightarrow>
                             (let c2 = str_overwrite c1 data_bytes (Some (ohe + 32))
                              in case unpack_H (py_slice c2 0x2c (0x2c + 2)) of
                                   Inl e \<Rightarrow> Inl e
                                 | Inr original_nsegments \<Rightarrow>
                                     (case pack_H (original_nsegments + 2) of
                                        Inl e \<Rightarrow> Inl e
                                      | Inr cnt \<Rightarrow>
                                          Inr (p\<lparr>ncontent :=
                                                   str_overwrite c2 cnt (Some 0x2c)\<rparr>)))))))"

section \<open>Python string operations\<close>

definition nl :: string where
  "nl = [CHR 0x0A]"

text \<open>\<^verbatim>\<open>sep.join(xs)\<close>.\<close>

fun py_join :: "string \<Rightarrow> string list \<Rightarrow> string" where
  "py_join sep [] = []"
| "py_join sep [x] = x"
| "py_join sep (x # y # ys) = x @ sep @ py_join sep (y # ys)"

text \<open>
  \<^verbatim>\<open>s.split("\n")\<close>: the pieces between the newlines, empty pieces included; the first
  argument is the piece being read.
\<close>

fun split_from :: "string \<Rightarrow> string \<Rightarrow> string list" where
  "split_from piece [] = [piece]"
| "split_from piece (c # cs) =
     (if c = CHR 0x0A then piece # split_from [] cs else split_from (piece @ [c]) cs)"

definition py_split_nl :: "string \<Rightarrow> string list" where
  "py_split_nl s = split_from [] s"

text \<open>\<^verbatim>\<open>s.split()\<close>: the words between runs of whitespace, none of them empty.\<close>

definition is_space :: "char \<Rightarrow> bool" where
  "is_space c \<longleftrightarrow> c \<in> set [CHR 0x20, CHR 0x09, CHR 0x0A, CHR 0x0B, CHR 0x0C, CHR 0x0D]"

fun words_from :: "string \<Rightarrow> string \<Rightarrow> string list" where
  "words_from w [] = (if w = [] then [] else [w])"
| "words_from w (c # cs) =
     (if is_space c then (if w = [] then words_from [] cs else w # words_from [] cs)
      else words_from (w @ [c]) cs)"

definition py_split :: "string \<Rightarrow> string list" where
  "py_split s = words_from [] s"

text \<open>
  \<^verbatim>\<open>hex(n)\<close> of Python 2 on a 64-bit platform: lower-case digits, a sign before the
  \<^verbatim>\<open>0x\<close>, and the suffix \<^verbatim>\<open>L\<close> on a value outside the machine integers.
\<close>

definition hex_digit :: "nat \<Rightarrow> char" where
  "hex_digit d = ''0123456789abcdef'' ! d"

function hex_digits :: "nat \<Rightarrow> string" where
  "hex_digits n = (if n < 16 then [hex_digit n] else hex_digits (n div 16) @ [hex_digit (n mod 16)])"
  by pat_completeness auto
termination
  by (relation "measure (\<lambda>n. n)") auto

declare hex_digits.simps [simp del]

definition py_hex :: "int \<Rightarrow> string" where
  "py_hex n =
     (if n < 0 then ''-'' else []) @ ''0x'' @ hex_digits (nat \<bar>n\<bar>)
       @ (if n > 2 ^ 63 - 1 \<or> n < - (2 ^ 63) then ''L'' else [])"

section \<open>External collaborators\<close>

text \<open>
  A decoded instruction (a capstone instruction object): \<^verbatim>\<open>i.address\<close>, \<^verbatim>\<open>i.bytes\<close> and its
  text.
\<close>

record insn =
  address :: int
  bytes :: string
  mnemonic :: string
  op_str :: string

text \<open>A block of the analysis project: \<^verbatim>\<open>block.size\<close> and \<^verbatim>\<open>block.bytes\<close>.\<close>

record block =
  block_size :: int
  block_bytes :: string

text \<open>
  What the patcher calls outside its own module, as parameters:
  \<^item> \<^verbatim>\<open>self.cfg.nodes()\<close> and \<^verbatim>\<open>self.cfg.get_any_node(a, is_syscall=False)\<close>;
  \<^item> \<^verbatim>\<open>self.project.factory.block(a)\<close> and \<^verbatim>\<open>self.project.factory.block(a, num_inst=k)\<close>;
  \<^item> \<^verbatim>\<open>self.project.loader.main_bin.addr_to_offset(a)\<close>, \<^verbatim>\<open>None\<close> on an unmapped address;
  \<^item> of the module \<^verbatim>\<open>utils\<close>: the assembler (\<^verbatim>\<open>compile_asm(code, base, name_map)\<close>,
    \<^verbatim>\<open>compile_asm_fake_symbol(code, base)\<close>, \<^verbatim>\<open>compile_jmp(origin, target)\<close>, each of which
    may fail), the disassembler \<^verbatim>\<open>decompile(bytes, offset)\<close>, and the two printers
    \<^verbatim>\<open>instruction_to_str\<close> and \<^verbatim>\<open>capstone_to_nasm\<close>.
\<close>

record env =
  cfg_nodes :: "cfg_node list"
  get_any_node :: "int \<Rightarrow> cfg_node option"
  factory_block :: "int \<Rightarrow> nat option \<Rightarrow> block"
  addr_to_offset :: "int \<Rightarrow> nat option"
  compile_asm :: "string \<Rightarrow> int \<Rightarrow> (string \<rightharpoonup> int) option \<Rightarrow> error + string"
  compile_asm_fake_symbol :: "string \<Rightarrow> int \<Rightarrow> error + string"
  compile_jmp :: "int \<Rightarrow> int \<Rightarrow> error + string"
  decompile :: "string \<Rightarrow> int \<Rightarrow> insn list"
  instruction_to_str :: "insn \<Rightarrow> string"
  capstone_to_nasm :: "insn \<Rightarrow> string"

section \<open>Movability oracle\<close>

text \<open>
  The inner function of \<^verbatim>\<open>check_if_movable\<close>:
  \<^verbatim>\<open>" ".join(utils.instruction_to_str(utils.decompile(ibytes, offset)[0]).split()[2:])\<close>.
\<close>

definition bytes_to_comparable_str :: "env \<Rightarrow> string \<Rightarrow> int \<Rightarrow> error + string" where
  "bytes_to_comparable_str e ibytes offset =
     (case py_index (decompile e ibytes offset) 0 of
        Inl err \<Rightarrow> Inl err
      | Inr i \<Rightarrow> Inr (py_join '' '' (drop 2 (py_split (instruction_to_str e i)))))"

definition check_if_movable :: "env \<Rightarrow> insn \<Rightarrow> error + bool" where
  "check_if_movable e instruction =
     (let instruction_bytes = bytes instruction
      in case bytes_to_comparable_str e instruction_bytes 0x0 of
           Inl err \<Rightarrow> Inl err
         | Inr pos1 \<Rightarrow>
             (case bytes_to_comparable_str e instruction_bytes 0x07f00000 of
                Inl err \<Rightarrow> Inl err
              | Inr pos2 \<Rightarrow>
                  (case bytes_to_comparable_str e instruction_bytes 0xfe000000 of
                     Inl err \<Rightarrow> Inl err
                   | Inr pos3 \<Rightarrow>
                       if pos1 = pos2 \<and> pos2 = pos3 then Inr True else Inr False)))"

section \<open>Image buffer and address translation\<close>

definition maddress_to_baddress :: "env \<Rightarrow> int \<Rightarrow> error + nat" where
  "maddress_to_baddress e a =
     (case addr_to_offset e a of
        None \<Rightarrow> Inl (InvalidVAddrException a)
      | Some baddr \<Rightarrow> Inr baddr)"

text \<open>
  The \<^verbatim>\<open>while nstart != end_p\<close> loop of \<^verbatim>\<open>get_memory_translation_list\<close>. It stops only when
  \<^verbatim>\<open>nstart\<close> meets \<^verbatim>\<open>end_p\<close> or an address has no file offset, so the result is an option:
  \<open>None\<close> when the loop runs forever.
\<close>

partial_function (option) translation_loop ::
  "env \<Rightarrow> int \<Rightarrow> int \<Rightarrow> (nat \<times> nat) list \<Rightarrow> (error + int \<times> (nat \<times> nat) list) option" where
  "translation_loop e nstart end_p mlist =
     (if nstart \<noteq> end_p then
        (case maddress_to_baddress e nstart of
           Inl err \<Rightarrow> Some (Inl err)
         | Inr b \<Rightarrow> translation_loop e (nstart + 0x1000) end_p (mlist @ [(b, b + 0x1000)]))
      else Some (Inr (nstart, mlist)))"

declare translation_loop.simps [code]

definition get_memory_translation_list ::
  "env \<Rightarrow> int \<Rightarrow> int \<Rightarrow> (error + (nat \<times> nat) list) option" where
  "get_memory_translation_list e address_v size_v =
     (let start = address_v;
          end_v = address_v + size_v - 1;
          start_p = address_v AND 0xfffffff000;
          end_p = end_v AND 0xfffffff000
      in if start_p = end_p then
           Some (case maddress_to_baddress e start of
                   Inl err \<Rightarrow> Inl err
                 | Inr s \<Rightarrow>
                     (case maddress_to_baddress e end_v of
                        Inl err \<Rightarrow> Inl err
                      | Inr t \<Rightarrow> Inr [(s, t + 1)]))
         else
           (case maddress_to_baddress e start of
              Inl err \<Rightarrow> Some (Inl err)
            | Inr first_page_baddress \<Rightarrow>
                (case translation_loop e ((start AND 0xfffffff000) + 0x1000) end_p
                        [(first_page_baddress, (first_page_baddress AND 0xfffffff000) + 0x1000)] of
                   None \<Rightarrow> None
                 | Some (Inl err) \<Rightarrow> Some (Inl err)
                 | Some (Inr (nstart, mlist)) \<Rightarrow>
                     Some (case maddress_to_baddress e nstart of
                             Inl err \<Rightarrow> Inl err
                           | Inr s \<Rightarrow>
                               (case maddress_to_baddress e end_v of
                                  Inl err \<Rightarrow> Inl err
                                | Inr t \<Rightarrow> Inr (mlist @ [(s, t + 1)]))))))"

text \<open>
  The loop of \<^verbatim>\<open>patch_bin\<close> over the translated ranges, with its counter \<^verbatim>\<open>ndata_pos\<close>.
\<close>

fun patch_bin_loop :: "string \<Rightarrow> string \<Rightarrow> nat \<Rightarrow> (nat \<times> nat) list \<Rightarrow> string" where
  "patch_bin_loop content new_content ndata_pos [] = content"
| "patch_bin_loop content new_content ndata_pos ((start, end_v) # rest) =
     (let ndata = py_slice new_content (int ndata_pos)
                    (int ndata_pos + (int end_v - int start))
      in patch_bin_loop (str_overwrite content ndata (Some start)) new_content
           (ndata_pos + length ndata) rest)"

definition patch_bin :: "env \<Rightarrow> patcher \<Rightarrow> int \<Rightarrow> string \<Rightarrow> (error + patcher) option" where
  "patch_bin e p address_v new_content =
     (case get_memory_translation_list e address_v (int (length new_content)) of
        None \<Rightarrow> None
      | Some (Inl err) \<Rightarrow> Some (Inl err)
      | Some (Inr ranges) \<Rightarrow>
          Some (Inr (p\<lparr>ncontent := patch_bin_loop (ncontent p) new_content 0 ranges\<rparr>)))"

fun read_mem_loop :: "string \<Rightarrow> string \<Rightarrow> (nat \<times> nat) list \<Rightarrow> string" where
  "read_mem_loop content mem [] = mem"
| "read_mem_loop content mem ((start, end_v) # rest) =
     read_mem_loop content (mem @ py_slice content (int start) (int end_v)) rest"

definition read_mem_from_file :: "env \<Rightarrow> patcher \<Rightarrow> int \<Rightarrow> int \<Rightarrow> (error + string) option" where
  "read_mem_from_file e p address_v size_v =
     (case get_memory_translation_list e address_v size_v of
        None \<Rightarrow> None
      | Some (Inl err) \<Rightarrow> Some (Inl err)
      | Some (Inr ranges) \<Rightarrow> Some (Inr (read_mem_loop (ncontent p) [] ranges)))"

section \<open>Detour engine\<close>

definition detour_size :: int where
  "detour_size = 5"

definition detour_attempts :: "int list" where
  "detour_attempts = [-1 * detour_size..0 + 1 - 1]"

definition one_byte_nop :: char where
  "one_byte_nop = CHR 0x90"

text \<open>
  The value of a Python variable of \<^verbatim>\<open>insert_detour\<close> that is either an integer or a block
  object. \<^verbatim>\<open>movable_bb_size\<close> is assigned \<^verbatim>\<open>self.project.factory.block(block_addr,
  num_inst=len(movable_instructions))\<close>, the block itself and not its \<^verbatim>\<open>.size\<close>. A block
  object has no arithmetic and no \<^verbatim>\<open>__hex__\<close>: with it as the right operand, \<^verbatim>\<open>+\<close> raises
  \<^verbatim>\<open>TypeError\<close>, and so does \<^verbatim>\<open>hex\<close>.
\<close>

datatype pyval = PyInt int | PyBlock block

definition py_add :: "int \<Rightarrow> pyval \<Rightarrow> error + int" where
  "py_add a v = (case v of PyInt b \<Rightarrow> Inr (a + b) | PyBlock blk \<Rightarrow> Inl TypeError)"

definition py_hex_val :: "pyval \<Rightarrow> error + string" where
  "py_hex_val v = (case v of PyInt b \<Rightarrow> Inr (py_hex b) | PyBlock blk \<Rightarrow> Inl TypeError)"

text \<open>
  The search \<^verbatim>\<open>for pos in detour_attempts\<close>: the \<^verbatim>\<open>and\<close> evaluates its right operand, and
  with it \<^verbatim>\<open>movable_bb_start + movable_bb_size\<close>, only when the left one holds. The result
  is \<^verbatim>\<open>detour_pos\<close>, \<open>None\<close> when the loop ends without a \<^verbatim>\<open>break\<close>.
\<close>

fun detour_search :: "int \<Rightarrow> int \<Rightarrow> pyval \<Rightarrow> int list \<Rightarrow> error + int option" where
  "detour_search patch_addr movable_bb_start movable_bb_size [] = Inr None"
| "detour_search patch_addr movable_bb_start movable_bb_size (pos # rest) =
     (let detour_start = patch_addr + pos;
          detour_end = detour_start + detour_size - 1
      in if detour_start \<ge> movable_bb_start then
           (case py_add movable_bb_start movable_bb_size of
              Inl err \<Rightarrow> Inl err
            | Inr window_end \<Rightarrow>
                if detour_end < window_end then Inr (Some detour_start)
                else detour_search patch_addr movable_bb_start movable_bb_size rest)
         else detour_search patch_addr movable_bb_start movable_bb_size rest)"

text \<open>The attribute \<^verbatim>\<open>i.overwritten\<close> that the engine attaches to each movable instruction.\<close>

datatype overwritten = Pre | Culprit | Post | Out

definition overlaps_detour :: "int \<Rightarrow> insn \<Rightarrow> bool" where
  "overlaps_detour detour_pos i \<longleftrightarrow>
     card (set [detour_pos..detour_pos + detour_size - 1]
           \<inter> set [address i..address i + int (length (bytes i)) - 1]) > 0"

definition classify :: "int \<Rightarrow> int \<Rightarrow> insn \<Rightarrow> overwritten" where
  "classify detour_pos patch_addr i =
     (if overlaps_detour detour_pos i then
        (if address i < patch_addr then Pre
         else if address i = patch_addr then Culprit
         else Post)
      else Out)"

definition tag_instructions :: "int \<Rightarrow> int \<Rightarrow> insn list \<Rightarrow> (insn \<times> overwritten) list" where
  "tag_instructions detour_pos patch_addr movable_instructions =
     map (\<lambda>i. (i, classify detour_pos patch_addr i)) movable_instructions"

definition with_tag :: "overwritten \<Rightarrow> (insn \<times> overwritten) list \<Rightarrow> insn list" where
  "with_tag t tagged = map fst (filter (\<lambda>it. snd it = t) tagged)"

text \<open>The loop that replaces every overwritten instruction with one-byte NOPs.\<close>

fun nop_out :: "env \<Rightarrow> patcher \<Rightarrow> (insn \<times> overwritten) list \<Rightarrow> (error + patcher) option" where
  "nop_out e p [] = Some (Inr p)"
| "nop_out e p (it # rest) =
     (if snd it \<noteq> Out then
        (case patch_bin e p (address (fst it))
                (replicate (length (bytes (fst it))) one_byte_nop) of
           None \<Rightarrow> None
         | Some (Inl err) \<Rightarrow> Some (Inl err)
         | Some (Inr p') \<Rightarrow> nop_out e p' rest)
      else nop_out e p rest)"

text \<open>
  \<^verbatim>\<open>jmp_back_target\<close>: the loop over \<^verbatim>\<open>reversed(movable_instructions)\<close> stops at the first
  instruction that is not \<^verbatim>\<open>out\<close>.
\<close>

definition jmp_back_target :: "(insn \<times> overwritten) list \<Rightarrow> int option" where
  "jmp_back_target tagged =
     (case List.find (\<lambda>it. snd it \<noteq> Out) (rev tagged) of
        None \<Rightarrow> None
      | Some it \<Rightarrow> Some (address (fst it) + int (length (bytes (fst it)))))"

text \<open>
  The text of the stub, built by the same concatenations as the source, then stripped of
  its blank lines. A missing \<^verbatim>\<open>jmp_back_target\<close> fails the \<^verbatim>\<open>assert\<close>.
\<close>

definition injected_code :: "env \<Rightarrow> string \<Rightarrow> (insn \<times> overwritten) list \<Rightarrow> error + string" where
  "injected_code e patch_code tagged =
     (let s1 = [] @ (nl @ concat (replicate 5 (''nop'' @ nl)) @ nl);
          s2 = s1 @ py_join nl (map (capstone_to_nasm e) (with_tag Pre tagged));
          s3 = s2 @ nl;
          s4 = s3 @ ((''; --- custom code start'' @ nl) @ patch_code @ nl
                      @ (''; --- custom code end'' @ nl) @ nl);
          s5 = s4 @ py_join nl (map (capstone_to_nasm e) (with_tag Culprit tagged));
          s6 = s5 @ nl;
          s7 = s6 @ py_join nl (map (capstone_to_nasm e) (with_tag Post tagged));
          s8 = s7 @ nl
      in case jmp_back_target tagged of
           None \<Rightarrow> Inl AssertionError
         | Some target \<Rightarrow>
             (let s9 = s8 @ (''jmp '' @ py_hex target) @ nl
              in Inr (py_join nl (filter (\<lambda>line. line \<noteq> []) (py_split_nl s9)))))"

text \<open>
  \<^verbatim>\<open>insert_detour\<close> from the line \<^verbatim>\<open>detour_overwritten_bytes = ...\<close> on, for the
  \<^verbatim>\<open>detour_pos\<close> the search has found. The block read back after the jump is only logged,
  but reading it can fail.
\<close>

definition detour_at ::
  "env \<Rightarrow> patcher \<Rightarrow> int \<Rightarrow> string \<Rightarrow> int \<Rightarrow> block \<Rightarrow> insn list \<Rightarrow> int
     \<Rightarrow> (error + patcher) option" where
  "detour_at e p patch_addr patch_code block_addr blk movable_instructions detour_pos =
     (let tagged = tag_instructions detour_pos patch_addr movable_instructions
      in if \<not> list_ex (\<lambda>it. snd it \<noteq> Out) tagged then Some (Inl AssertionError)
         else
           (case nop_out e p tagged of
              None \<Rightarrow> None
            | Some (Inl err) \<Rightarrow> Some (Inl err)
            | Some (Inr p1) \<Rightarrow>
                (case compile_jmp e detour_pos (curr_code_position p1) of
                   Inl err \<Rightarrow> Some (Inl err)
                 | Inr detour_jmp_code \<Rightarrow>
                     (case patch_bin e p1 detour_pos detour_jmp_code of
                        None \<Rightarrow> None
                      | Some (Inl err) \<Rightarrow> Some (Inl err)
                      | Some (Inr p2) \<Rightarrow>
                          (case read_mem_from_file e p2 block_addr (block_size blk) of
                             None \<Rightarrow> None
                           | Some (Inl err) \<Rightarrow> Some (Inl err)
                           | Some (Inr patched_bbcode) \<Rightarrow>
                               (case injected_code e patch_code tagged of
                                  Inl err \<Rightarrow> Some (Inl err)
                                | Inr stub_text \<Rightarrow>
                                    (case compile_asm e stub_text (curr_code_position p2) None of
                                       Inl err \<Rightarrow> Some (Inl err)
                                     | Inr new_code \<Rightarrow>
                                         Some (Inr (p2\<lparr>added_code := added_code p2 @ new_code,
                                                       curr_code_position :=
                                                         curr_code_position p2
                                                           + int (length new_code)\<rparr>)))))))))"

text \<open>
  \<^verbatim>\<open>insert_detour\<close>. When the search ends without a position, the arguments of the
  \<^verbatim>\<open>DetourException\<close> are evaluated first, \<^verbatim>\<open>hex(movable_bb_size)\<close> among them.
\<close>

definition insert_detour :: "env \<Rightarrow> patcher \<Rightarrow> int \<Rightarrow> string \<Rightarrow> (error + patcher) option" where
  "insert_detour e p patch_addr patch_code =
     (case get_block_containing_inst (get_any_node e) (ordered_nodes p) patch_addr of
        Inl err \<Rightarrow> Some (Inl err)
      | Inr block_addr \<Rightarrow>
          (let blk = factory_block e block_addr None;
               original_bbcode = block_bytes blk;
               instructions = decompile e original_bbcode block_addr
           in case py_index instructions (-1) of
                Inl err \<Rightarrow> Some (Inl err)
              | Inr last_instruction \<Rightarrow>
                  (case check_if_movable e last_instruction of
                     Inl err \<Rightarrow> Some (Inl err)
                   | Inr movable \<Rightarrow>
                       (let movable_instructions =
                              (if movable then instructions else butlast instructions)
                        in if length movable_instructions = 0
                           then Some (Inl (DetourException ''No movable instructions found''))
                           else
                             (let movable_bb_start = address (movable_instructions ! 0);
                                  movable_bb_size =
                                    PyBlock (factory_block e block_addr
                                               (Some (length movable_instructions)))
                              in case detour_search patch_addr movable_bb_start movable_bb_size
                                        detour_attempts of
                                   Inl err \<Rightarrow> Some (Inl err)
                                 | Inr None \<Rightarrow>
                                     (case py_hex_val movable_bb_size of
                                        Inl err \<Rightarrow> Some (Inl err)
                                      | Inr h \<Rightarrow> Some (Inl (DetourException ''No space in bb'')))
                                 | Inr (Some detour_pos) \<Rightarrow>
                                     detour_at e p patch_addr patch_code block_addr blk
                                       movable_instructions detour_pos)))))"

section \<open>Compile pipeline\<close>

text \<open>The assignments at the head of \<^verbatim>\<open>compile_patches\<close>, up to the \<^verbatim>\<open>ljust\<close>.\<close>

definition compile_reset :: "patcher \<Rightarrow> patcher" where
  "compile_reset p =
     (let file_position = round_up_to_page (length (ncontent p) + 2 * 32)
      in p\<lparr>name_map := Map.empty,
            added_data := [],
            added_code := [],
            curr_code_position := added_code_segment,
            curr_data_position := added_data_segment,
            curr_file_position := file_position,
            added_data_file_start := Some file_position,
            ncontent := ljust (ncontent p) file_position (CHR 0x00)\<rparr>)"

definition bind_name :: "string option \<Rightarrow> int \<Rightarrow> (string \<rightharpoonup> int) \<Rightarrow> (string \<rightharpoonup> int)" where
  "bind_name name_v position m = (case name_v of None \<Rightarrow> m | Some n \<Rightarrow> m(n \<mapsto> position))"

text \<open>The loop \<^verbatim>\<open># 1) AddDataPatch\<close>.\<close>

fun apply_add_data :: "patcher \<Rightarrow> patch list \<Rightarrow> patcher" where
  "apply_add_data p [] = p"
| "apply_add_data p (AddDataPatch data_v name_v # rest) =
     apply_add_data
       (p\<lparr>added_data := added_data p @ data_v,
           name_map := bind_name name_v (curr_data_position p) (name_map p),
           curr_data_position := curr_data_position p + int (length data_v),
           curr_file_position := curr_file_position p + length data_v,
           ncontent := str_overwrite (ncontent p) data_v None\<rparr>) rest"
| "apply_add_data p (other # rest) = apply_add_data p rest"

text \<open>
  The first loop of \<^verbatim>\<open># 2) AddCodePatch\<close> ("resolving symbols"), with its local cursor
  \<^verbatim>\<open>current_symbol_pos\<close>.
\<close>

fun resolve_symbols :: "env \<Rightarrow> int \<Rightarrow> patcher \<Rightarrow> patch list \<Rightarrow> error + patcher" where
  "resolve_symbols e current_symbol_pos p [] = Inr p"
| "resolve_symbols e current_symbol_pos p (AddCodePatch asm_code name_v # rest) =
     (case compile_asm_fake_symbol e asm_code current_symbol_pos of
        Inl err \<Rightarrow> Inl err
      | Inr fake \<Rightarrow>
          resolve_symbols e (current_symbol_pos + int (length fake))
            (p\<lparr>name_map := bind_name name_v current_symbol_pos (name_map p)\<rparr>) rest)"
| "resolve_symbols e current_symbol_pos p (other # rest) =
     resolve_symbols e current_symbol_pos p rest"

text \<open>
  The second loop ("now compile for real"). Its last statement is the bare call
  \<^verbatim>\<open>utils.str_overwrite(self.ncontent, new_code)\<close>: the string it returns is not assigned, and
  \<^verbatim>\<open>ncontent\<close> stays as it was.
\<close>

fun apply_add_code :: "env \<Rightarrow> patcher \<Rightarrow> patch list \<Rightarrow> error + patcher" where
  "apply_add_code e p [] = Inr p"
| "apply_add_code e p (AddCodePatch asm_code name_v # rest) =
     (case compile_asm e asm_code (curr_code_position p) (Some (name_map p)) of
        Inl err \<Rightarrow> Inl err
      | Inr new_code \<Rightarrow>
          (let unassigned = str_overwrite (ncontent p) new_code None
           in apply_add_code e
                (p\<lparr>added_code := added_code p @ new_code,
                    curr_code_position := curr_code_position p + int (length new_code),
                    curr_file_position := curr_file_position p + length new_code\<rparr>) rest))"
| "apply_add_code e p (other # rest) = apply_add_code e p rest"

text \<open>
  The loop \<^verbatim>\<open># 3) InlinePatch\<close>. The offset comes from the loader directly; an unmapped
  address gives \<^verbatim>\<open>None\<close>, which \<^verbatim>\<open>str_overwrite\<close> takes as "no offset".
\<close>

fun apply_inline :: "env \<Rightarrow> patcher \<Rightarrow> patch list \<Rightarrow> error + patcher" where
  "apply_inline e p [] = Inr p"
| "apply_inline e p (InlinePatch instruction_addr new_asm name_v # rest) =
     (case compile_asm e new_asm instruction_addr (Some (name_map p)) of
        Inl err \<Rightarrow> Inl err
      | Inr new_code \<Rightarrow>
          if int (length new_code) \<noteq> block_size (factory_block e instruction_addr (Some 1))
          then Inl AssertionError
          else
            (let file_offset = addr_to_offset e instruction_addr
             in apply_inline e
                  (p\<lparr>ncontent := str_overwrite (ncontent p) new_code file_offset\<rparr>) rest))"
| "apply_inline e p (other # rest) = apply_inline e p rest"

text \<open>The loop \<^verbatim>\<open># 4) InsertCodePatch\<close>.\<close>

fun apply_insert_code :: "env \<Rightarrow> patcher \<Rightarrow> patch list \<Rightarrow> (error + patcher) option" where
  "apply_insert_code e p [] = Some (Inr p)"
| "apply_insert_code e p (InsertCodePatch addr_v code_v name_v # rest) =
     (case insert_detour e p addr_v code_v of
        None \<Rightarrow> None
      | Some (Inl err) \<Rightarrow> Some (Inl err)
      | Some (Inr p') \<Rightarrow> apply_insert_code e p' rest)"
| "apply_insert_code e p (other # rest) = apply_insert_code e p rest"

text \<open>
  \<^verbatim>\<open>compile_patches\<close> from its first line to the end of the loop \<^verbatim>\<open># 3)\<close>: the added data,
  the added code and the inline replacements.
\<close>

definition compile_regions :: "env \<Rightarrow> patcher \<Rightarrow> error + patcher" where
  "compile_regions e p =
     (let p1 = apply_add_data (compile_reset p) (patches p);
          padded = pad_str (ncontent p1) 0x1000;
          p2 = p1\<lparr>ncontent := padded,
                   curr_file_position := length padded,
                   added_code_file_start := Some (length padded)\<rparr>
      in case resolve_symbols e (curr_code_position p2) p2 (patches p2) of
           Inl err \<Rightarrow> Inl err
         | Inr p3 \<Rightarrow>
             (case apply_add_code e p3 (patches p3) of
                Inl err \<Rightarrow> Inl err
              | Inr p4 \<Rightarrow> apply_inline e p4 (patches p4)))"

text \<open>
  \<^verbatim>\<open>compile_patches\<close>: the three loops above, then the call
  \<^verbatim>\<open>self.set_added_segment_headers()\<close>, then the loop \<^verbatim>\<open># 4)\<close> over the \<^verbatim>\<open>InsertCodePatch\<close>es.
\<close>

definition compile_patches :: "env \<Rightarrow> patcher \<Rightarrow> (error + patcher) option" where
  "compile_patches e p =
     (case compile_regions e p of
        Inl err \<Rightarrow> Some (Inl err)
      | Inr p5 \<Rightarrow>
          (case set_added_segment_headers p5 of
             Inl err \<Rightarrow> Some (Inl err)
           | Inr p6 \<Rightarrow> apply_insert_code e p6 (patches p6)))"

text \<open>\<^verbatim>\<open>save\<close> writes \<^verbatim>\<open>self.ncontent\<close> to the output file: the bytes of that file.\<close>

definition save :: "patcher \<Rightarrow> string" where
  "save p = ncontent p"

text \<open>
  The constructor, on the bytes of the input file: the attributes in the order of
  \<^verbatim>\<open>__init__\<close>, with \<^verbatim>\<open>setup_headers\<close> run before the patch data is initialised.
\<close>

definition new_patcher :: "env \<Rightarrow> string \<Rightarrow> error + patcher" where
  "new_patcher e file_content =
     (case setup_headers
             \<lparr> ocontent = file_content, ncontent = [], segments = None,
               original_header_end = None, patches = [], name_map = Map.empty,
               added_code = [], added_data = [],
               curr_code_position = added_code_segment,
               curr_data_position = added_data_segment,
               curr_file_position = 0,
               added_code_file_start = None, added_data_file_start = None,
               ordered_nodes = [] \<rparr> of
        Inl err \<Rightarrow> Inl err
      | Inr p \<Rightarrow>
          Inr (p\<lparr>patches := [], name_map := Map.empty, added_code := [], added_data := [],
                 curr_code_position := added_code_segment,
                 curr_data_position := added_data_segment,
                 curr_file_position := round_up_to_page (length (ncontent p) + 2 * 32),
                 added_code_file_start := None, added_data_file_start := None,
                 ordered_nodes := get_ordered_nodes (cfg_nodes e)\<rparr>))"

text \<open>The methods that register a patch append it to \<^verbatim>\<open>self.patches\<close>.\<close>

definition add_data :: "patcher \<Rightarrow> string \<Rightarrow> string option \<Rightarrow> patcher" where
  "add_data p data_v name_v = p\<lparr>patches := patches p @ [AddDataPatch data_v name_v]\<rparr>"

definition add_code :: "patcher \<Rightarrow> string \<Rightarrow> string option \<Rightarrow> patcher" where
  "add_code p code_v name_v = p\<lparr>patches := patches p @ [AddCodePatch code_v name_v]\<rparr>"

definition insert_into_block :: "patcher \<Rightarrow> int \<Rightarrow> string \<Rightarrow> string option \<Rightarrow> patcher" where
  "insert_into_block p addr_v code_to_insert name_v =
     p\<lparr>patches := patches p @ [InsertCodePatch addr_v code_to_insert name_v]\<rparr>"

definition replace_instruction_asm :: "patcher \<Rightarrow> int \<Rightarrow> string \<Rightarrow> string option \<Rightarrow> patcher" where
  "replace_instruction_asm p instruction_addr new_asm name_v =
     p\<lparr>patches := patches p @ [InlinePatch instruction_addr new_asm name_v]\<rparr>"

section \<open>Auxiliary predicates and example inputs\<close>

text \<open>What \<^verbatim>\<open>bisect_right\<close> promises of its result \<open>r\<close> on a sorted list.\<close>

definition bisect_post :: "int list \<Rightarrow> int \<Rightarrow> nat \<Rightarrow> bool" where
  "bisect_post a x r \<longleftrightarrow>
     (\<forall>i<r. a ! i \<le> x) \<and> (\<forall>i. r \<le> i \<and> i < length a \<longrightarrow> x < a ! i)"

subsection \<open>An example program and its collaborators\<close>

text \<open>
  A toy disassembler for eight x86 encodings: \<^verbatim>\<open>push ebp\<close>, \<^verbatim>\<open>mov ebp, esp\<close>,
  \<^verbatim>\<open>sub esp, imm8\<close>, \<^verbatim>\<open>mov eax, imm32\<close>, \<^verbatim>\<open>ret\<close>, \<^verbatim>\<open>nop\<close>, and the two relative jumps
  \<^verbatim>\<open>jne rel8\<close> and \<^verbatim>\<open>jmp rel32\<close>, whose operand text is the absolute target and so depends
  on the address of the instruction. Decoding stops at the first byte it does not know.
\<close>

fun example_decompile :: "string \<Rightarrow> int \<Rightarrow> insn list" where
  "example_decompile [] off = []"
| "example_decompile (c # cs) off =
     (if c = CHR 0x55 then
        \<lparr>address = off, bytes = [c], mnemonic = ''push'', op_str = ''ebp''\<rparr>
          # example_decompile cs (off + 1)
      else if c = CHR 0xc3 then
        \<lparr>address = off, bytes = [c], mnemonic = ''ret'', op_str = []\<rparr>
          # example_decompile cs (off + 1)
      else if c = CHR 0x90 then
        \<lparr>address = off, bytes = [c], mnemonic = ''nop'', op_str = []\<rparr>
          # example_decompile cs (off + 1)
      else if c = CHR 0x89 \<and> take 1 cs = [CHR 0xe5] then
        \<lparr>address = off, bytes = c # take 1 cs, mnemonic = ''mov'', op_str = ''ebp, esp''\<rparr>
          # example_decompile (drop 1 cs) (off + 2)
      else if c = CHR 0x83 \<and> take 1 cs = [CHR 0xec] \<and> 2 \<le> length cs then
        \<lparr>address = off, bytes = c # take 2 cs, mnemonic = ''sub'',
          op_str = ''esp, '' @ py_hex (int (unpack_le (take 1 (drop 1 cs))))\<rparr>
          # example_decompile (drop 2 cs) (off + 3)
      else if c = CHR 0xb8 \<and> 4 \<le> length cs then
        \<lparr>address = off, bytes = c # take 4 cs, mnemonic = ''mov'',
          op_str = ''eax, '' @ py_hex (int (unpack_le (take 4 cs)))\<rparr>
          # example_decompile (drop 4 cs) (off + 5)
      else if c = CHR 0x75 \<and> 1 \<le> length cs then
        \<lparr>address = off, bytes = c # take 1 cs, mnemonic = ''jne'',
          op_str = py_hex ((off + 2 + int (unpack_le (take 1 cs))) mod 2 ^ 32)\<rparr>
          # example_decompile (drop 1 cs) (off + 2)
      else if c = CHR 0xe9 \<and> 4 \<le> length cs then
        \<lparr>address = off, bytes = c # take 4 cs, mnemonic = ''jmp'',
          op_str = py_hex ((off + 5 + int (unpack_le (take 4 cs))) mod 2 ^ 32)\<rparr>
          # example_decompile (drop 4 cs) (off + 5)
      else [])"

text \<open>
  The code of the example: at \<^verbatim>\<open>0x8048100\<close> the block
  \<^verbatim>\<open>push ebp; mov ebp, esp; sub esp, 0x10; mov eax, 1; ret\<close>, at \<^verbatim>\<open>0x8048200\<close> the block
  \<^verbatim>\<open>mov eax, 1; ret\<close>, at \<^verbatim>\<open>0x8048300\<close> the block \<^verbatim>\<open>nop; jne 0x8048300\<close>.
\<close>

definition example_block1 :: string where
  "example_block1 = [CHR 0x55, CHR 0x89, CHR 0xe5, CHR 0x83, CHR 0xec, CHR 0x10,
                     CHR 0xb8, CHR 0x01, CHR 0x00, CHR 0x00, CHR 0x00, CHR 0xc3]"

definition example_block2 :: string where
  "example_block2 = [CHR 0xb8, CHR 0x01, CHR 0x00, CHR 0x00, CHR 0x00, CHR 0xc3]"

definition example_block3 :: string where
  "example_block3 = [CHR 0x90, CHR 0x75, CHR 0xfd]"

text \<open>
  The image: a 52-byte header (entry \<^verbatim>\<open>0x8048100\<close>, program headers at offset \<^verbatim>\<open>0x34\<close>, 32
  bytes each, one of them), one \<^verbatim>\<open>LOAD\<close> program header mapping the \<^verbatim>\<open>0x303\<close> bytes of the
  file at \<^verbatim>\<open>0x8048000\<close> (flags 5, alignment \<^verbatim>\<open>0x1000\<close>), and the three blocks at the file
  offsets \<^verbatim>\<open>0x100\<close>, \<^verbatim>\<open>0x200\<close> and \<^verbatim>\<open>0x300\<close>. The header and the program header alone are
  the smallest image the patcher accepts.
\<close>

definition example_header :: string where
  "example_header =
     [CHR 0x7f, CHR 0x43, CHR 0x47, CHR 0x43,
      CHR 0x00, CHR 0x00, CHR 0x00, CHR 0x00, CHR 0x00, CHR 0x00,
      CHR 0x00, CHR 0x00, CHR 0x00, CHR 0x00, CHR 0x00, CHR 0x00,
      CHR 0x02, CHR 0x00, CHR 0x03, CHR 0x00, CHR 0x01, CHR 0x00, CHR 0x00, CHR 0x00,
      CHR 0x00, CHR 0x81, CHR 0x04, CHR 0x08, CHR 0x34, CHR 0x00, CHR 0x00, CHR 0x00,
      CHR 0x00, CHR 0x00, CHR 0x00, CHR 0x00, CHR 0x00, CHR 0x00, CHR 0x00, CHR 0x00,
      CHR 0x34, CHR 0x00, CHR 0x20, CHR 0x00, CHR 0x01, CHR 0x00,
      CHR 0x00, CHR 0x00, CHR 0x00, CHR 0x00, CHR 0x00, CHR 0x00]"

definition example_phdr :: string where
  "example_phdr =
     [CHR 0x01, CHR 0x00, CHR 0x00, CHR 0x00, CHR 0x00, CHR 0x00, CHR 0x00, CHR 0x00,
      CHR 0x00, CHR 0x80, CHR 0x04, CHR 0x08, CHR 0x00, CHR 0x80, CHR 0x04, CHR 0x08,
      CHR 0x03, CHR 0x03, CHR 0x00, CHR 0x00, CHR 0x03, CHR 0x03, CHR 0x00, CHR 0x00,
      CHR 0x05, CHR 0x00, CHR 0x00, CHR 0x00, CHR 0x00, CHR 0x10, CHR 0x00, CHR 0x00]"

definition example_image :: string where
  "example_image =
     example_header @ example_phdr @ replicate (0x100 - 84) (CHR 0x00)
     @ example_block1 @ replicate (0x100 - 12) (CHR 0x00)
     @ example_block2 @ replicate (0x100 - 6) (CHR 0x00)
     @ example_block3"

definition example_small_image :: string where
  "example_small_image = example_header @ example_phdr"

text \<open>The attributes of a patcher on the small image before \<^verbatim>\<open>setup_headers\<close> has run.\<close>

definition example_fresh :: patcher where
  "example_fresh =
     \<lparr> ocontent = example_small_image, ncontent = [], segments = None,
       original_header_end = None, patches = [], name_map = Map.empty,
       added_code = [], added_data = [],
       curr_code_position = added_code_segment,
       curr_data_position = added_data_segment,
       curr_file_position = 0,
       added_code_file_start = None, added_data_file_start = None,
       ordered_nodes = [] \<rparr>"

definition example_block_start :: "int \<Rightarrow> string" where
  "example_block_start a =
     (if 0x8048100 \<le> a \<and> a < 0x8048100 + 12 then drop (nat (a - 0x8048100)) example_block1
      else if 0x8048200 \<le> a \<and> a < 0x8048200 + 6 then drop (nat (a - 0x8048200)) example_block2
      else if 0x8048300 \<le> a \<and> a < 0x8048300 + 3 then drop (nat (a - 0x8048300)) example_block3
      else [])"

definition example_factory_block :: "int \<Rightarrow> nat option \<Rightarrow> block" where
  "example_factory_block a num_inst =
     (let code_v = example_block_start a;
          ins = example_decompile code_v a;
          kept = (case num_inst of None \<Rightarrow> ins | Some k \<Rightarrow> take k ins);
          sz = sum_list (map (\<lambda>i. length (bytes i)) kept)
      in \<lparr>block_size = int sz, block_bytes = take sz code_v\<rparr>)"

text \<open>
  A toy assembler: one byte for each non-blank line that is not a comment, \<^verbatim>\<open>0xc3\<close> for
  \<^verbatim>\<open>ret\<close> and \<^verbatim>\<open>0x90\<close> for anything else; and the five-byte relative jump.
\<close>

definition example_assemble :: "string \<Rightarrow> string" where
  "example_assemble code_v =
     map (\<lambda>line. if line = ''ret'' then CHR 0xc3 else CHR 0x90)
       (filter (\<lambda>line. line \<noteq> [] \<and> take 1 line \<noteq> '';'') (py_split_nl code_v))"

definition example_env :: env where
  "example_env =
     \<lparr> cfg_nodes =
         [\<lparr>addr = 0x8048200, instruction_addrs = [0x8048200, 0x8048205]\<rparr>,
          \<lparr>addr = 0x8048100,
            instruction_addrs = [0x8048100, 0x8048101, 0x8048103, 0x8048106, 0x804810b]\<rparr>,
          \<lparr>addr = 0x8048300, instruction_addrs = [0x8048300, 0x8048301]\<rparr>,
          \<lparr>addr = 0x8048100,
            instruction_addrs = [0x8048100, 0x8048101, 0x8048103, 0x8048106, 0x804810b]\<rparr>],
       get_any_node =
         (\<lambda>a. if a = 0x8048100 then
                 Some \<lparr>addr = 0x8048100,
                       instruction_addrs =
                         [0x8048100, 0x8048101, 0x8048103, 0x8048106, 0x804810b]\<rparr>
               else if a = 0x8048200 then
                 Some \<lparr>addr = 0x8048200, instruction_addrs = [0x8048200, 0x8048205]\<rparr>
               else if a = 0x8048300 then
                 Some \<lparr>addr = 0x8048300, instruction_addrs = [0x8048300, 0x8048301]\<rparr>
               else None),
       factory_block = example_factory_block,
       addr_to_offset =
         (\<lambda>a. if 0x8048000 \<le> a \<and> a < 0x8048000 + 0x303 then Some (nat (a - 0x8048000))
               else None),
       compile_asm = (\<lambda>code_v base names. Inr (example_assemble code_v)),
       compile_asm_fake_symbol = (\<lambda>code_v base. Inr (example_assemble code_v)),
       compile_jmp =
         (\<lambda>origin target. Inr (CHR 0xe9 # pack_le 4 (nat ((target - (origin + 5)) mod 2 ^ 32)))),
       decompile = example_decompile,
       instruction_to_str =
         (\<lambda>i. py_hex (address i) @ '' bytes: '' @ mnemonic i @ '' '' @ op_str i),
       capstone_to_nasm = (\<lambda>i. mnemonic i @ '' '' @ op_str i) \<rparr>"

text \<open>
  Three patches for the example: six bytes of data named \<^verbatim>\<open>msg\<close>, the code \<^verbatim>\<open>ret\<close> named
  \<^verbatim>\<open>f\<close>, and the replacement of the one-byte \<^verbatim>\<open>push ebp\<close> at \<^verbatim>\<open>0x8048100\<close> by \<^verbatim>\<open>nop\<close>.
\<close>

definition example_patches :: "patch list" where
  "example_patches =
     [AddDataPatch (''hello'' @ [CHR 0x00]) (Some ''msg''),
      AddCodePatch ''ret'' (Some ''f''),
      InlinePatch 0x8048100 ''nop'' None]"

text \<open>The non-blank lines of a list of texts, in order.\<close>

definition nonblank_lines :: "string list \<Rightarrow> string list" where
  "nonblank_lines texts = filter (\<lambda>line. line \<noteq> []) (concat (map py_split_nl texts))"

text \<open>
  The stub text as C4 words it, for comparison with \<^const>\<open>injected_code\<close>: five NOPs, every
  pre-tagged instruction, the user's source, the culprit instruction (the instruction at
  the patched address), every post-tagged instruction, and the final jump.
\<close>

definition claimed_stub_text ::
  "env \<Rightarrow> string \<Rightarrow> insn \<Rightarrow> (insn \<times> overwritten) list \<Rightarrow> int \<Rightarrow> string" where
  "claimed_stub_text e patch_code culprit_instruction tagged target =
     py_join nl
       (replicate 5 ''nop''
        @ map (capstone_to_nasm e) (with_tag Pre tagged)
        @ [patch_code]
        @ [capstone_to_nasm e culprit_instruction]
        @ map (capstone_to_nasm e) (with_tag Post tagged)
        @ [''jmp '' @ py_hex target])"

text \<open>Texts that each end a line: every text followed by a newline.\<close>

definition cat_nl :: "string list \<Rightarrow> string" where
  "cat_nl texts = concat (map (\<lambda>t. t @ nl) texts)"

section \<open>The ordered node list\<close>

lemma ordered_nodes_loop_remdups_adj:
  "ordered_nodes_loop prev acc ns =
     acc @ (case prev of None \<Rightarrow> remdups_adj (map addr ns)
                       | Some p \<Rightarrow> tl (remdups_adj (p # map addr ns)))"
proof (induction ns arbitrary: prev acc)
  case Nil
  then show ?case by (simp split: option.split)
next
  case (Cons n ns)
  then show ?case by (cases prev) (simp_all add: remdups_adj_Cons split: list.split)
qed

lemma sorted_distinct_remdups_adj:
  "sorted (xs :: int list) \<Longrightarrow> distinct (remdups_adj xs)"
  by (induction xs rule: remdups_adj.induct) auto

lemma get_ordered_nodes_remdups_adj:
  "get_ordered_nodes nodes = remdups_adj (map addr (sort_key addr nodes))"
  by (simp add: get_ordered_nodes_def ordered_nodes_loop_remdups_adj)

text \<open>
  C10: \<^verbatim>\<open>get_ordered_nodes\<close> returns a strictly increasing (hence duplicate-free) list,
  and the list holds exactly the addresses of the graph's nodes.
\<close>

theorem get_ordered_nodes_strictly_increasing:
  "sorted_wrt (<) (get_ordered_nodes nodes)
   \<and> distinct (get_ordered_nodes nodes)
   \<and> set (get_ordered_nodes nodes) = addr ` set nodes"
proof -
  have s: "sorted (map addr (sort_key addr nodes))"
    by (rule sorted_sort_key)
  have "sorted (remdups_adj (map addr (sort_key addr nodes)))"
    using s by simp
  moreover have "distinct (remdups_adj (map addr (sort_key addr nodes)))"
    using s by (rule sorted_distinct_remdups_adj)
  ultimately show ?thesis
    by (simp add: get_ordered_nodes_remdups_adj strict_sorted_iff)
qed

section \<open>The block locator\<close>

lemma bisect_loop_correct:
  "sorted a \<Longrightarrow> lo \<le> hi \<Longrightarrow> hi \<le> length a \<Longrightarrow>
   (\<forall>i<lo. a ! i \<le> x) \<Longrightarrow> (\<forall>i. hi \<le> i \<and> i < length a \<longrightarrow> x < a ! i) \<Longrightarrow>
   bisect_loop a x lo hi \<le> hi \<and> bisect_post a x (bisect_loop a x lo hi)"
proof (induction a x lo hi rule: bisect_loop.induct)
  case (1 a x lo hi)
  note srt = "1.prems"(1) and lohi = "1.prems"(2) and hilen = "1.prems"(3)
    and below = "1.prems"(4) and above = "1.prems"(5)
  show ?case
  proof (cases "lo < hi")
    case False
    then have e: "bisect_loop a x lo hi = lo"
      by (subst bisect_loop.simps) simp
    have "hi = lo" using False lohi by simp
    then show ?thesis unfolding e bisect_post_def using below above by blast
  next
    case True
    define mid where "mid = (lo + hi) div 2"
    have m1: "lo \<le> mid" and m2: "mid < hi" using True by (simp_all add: mid_def)
    have m3: "mid < length a" using m2 hilen by simp
    show ?thesis
    proof (cases "x < a ! mid")
      case lt: True
      have e: "bisect_loop a x lo hi = bisect_loop a x lo mid"
        by (subst bisect_loop.simps) (simp add: True lt mid_def [symmetric] Let_def)
      have up: "\<forall>i. mid \<le> i \<and> i < length a \<longrightarrow> x < a ! i"
      proof (intro allI impI)
        fix i assume h: "mid \<le> i \<and> i < length a"
        have "a ! mid \<le> a ! i"
          by (rule sorted_nth_mono [OF srt]) (use h in simp_all)
        with lt show "x < a ! i" by simp
      qed
      have le: "mid \<le> length a" using m3 by simp
      have "bisect_loop a x lo mid \<le> mid \<and> bisect_post a x (bisect_loop a x lo mid)"
        by (rule "1.IH"(1) [OF True mid_def lt srt m1 le below up])
      then show ?thesis unfolding e using m2 by simp
    next
      case ge: False
      have e: "bisect_loop a x lo hi = bisect_loop a x (mid + 1) hi"
        by (subst bisect_loop.simps) (simp add: True ge mid_def [symmetric] Let_def)
      have low: "\<forall>i<mid + 1. a ! i \<le> x"
      proof (intro allI impI)
        fix i assume h: "i < mid + 1"
        have "a ! i \<le> a ! mid"
          by (rule sorted_nth_mono [OF srt]) (use h m3 in simp_all)
        with ge show "a ! i \<le> x" by simp
      qed
      have le: "mid + 1 \<le> hi" using m2 by simp
      have "bisect_loop a x (mid + 1) hi \<le> hi \<and> bisect_post a x (bisect_loop a x (mid + 1) hi)"
        by (rule "1.IH"(2) [OF True mid_def ge srt le hilen low above])
      then show ?thesis unfolding e by simp
    qed
  qed
qed

lemma bisect_right_correct:
  assumes "sorted a"
  shows "bisect_right a x \<le> length a \<and> bisect_post a x (bisect_right a x)"
  unfolding bisect_right_def
  by (rule bisect_loop_correct [OF assms]) simp_all

lemma sorted_get_ordered_nodes: "sorted (get_ordered_nodes nodes)"
  by (simp add: get_ordered_nodes_remdups_adj sorted_sort_key)

lemma bisect_index_greatest:
  assumes srt: "sorted a" and mem: "s \<in> set a" and le: "s \<le> x"
    and mx: "\<forall>t\<in>set a. t \<le> x \<longrightarrow> t \<le> s"
  shows "py_index a (int (bisect_right a x) - 1) = Inr s"
proof -
  define r where "r = bisect_right a x"
  have rl: "r \<le> length a" and post: "bisect_post a x r"
    using bisect_right_correct [OF srt, of x] by (simp_all add: r_def)
  obtain k where k: "k < length a" "a ! k = s"
    using mem by (auto simp: in_set_conv_nth)
  have kr: "k < r"
  proof (rule ccontr)
    assume "\<not> k < r"
    then have "x < a ! k" using post k(1) by (simp add: bisect_post_def)
    with k(2) le show False by simp
  qed
  then have r0: "0 < r" by simp
  have r1: "r - 1 < length a" using r0 rl by simp
  have "a ! (r - 1) \<le> x" using post r0 by (simp add: bisect_post_def)
  moreover have "a ! (r - 1) \<in> set a" using r1 by simp
  ultimately have "a ! (r - 1) \<le> s" using mx by blast
  moreover have "a ! k \<le> a ! (r - 1)"
    by (rule sorted_nth_mono [OF srt]) (use kr r1 in simp_all)
  ultimately have eq: "a ! (r - 1) = s" using k(2) by simp
  have idx: "int r - 1 = int (r - 1)" using r0 by simp
  show ?thesis
    unfolding r_def [symmetric] idx using r1 eq by (simp add: py_index_def)
qed

lemma bisect_index_below:
  assumes srt: "sorted a" and ne: "a \<noteq> []" and below: "\<forall>t\<in>set a. x < t"
  shows "py_index a (int (bisect_right a x) - 1) = Inr (last a)"
proof -
  define r where "r = bisect_right a x"
  have post: "bisect_post a x r"
    using bisect_right_correct [OF srt, of x] by (simp add: r_def)
  have "r = 0"
  proof (rule ccontr)
    assume "r \<noteq> 0"
    then have "a ! 0 \<le> x" using post by (simp add: bisect_post_def)
    moreover have "a ! 0 \<in> set a" using ne by simp
    ultimately show False using below by fastforce
  qed
  moreover have "nat (int (length a) - 1) = length a - 1" by simp
  moreover have "Suc 0 \<le> length a" using ne by (cases a) simp_all
  ultimately show ?thesis
    unfolding r_def [symmetric] using ne by (simp add: py_index_def last_conv_nth)
qed

text \<open>
  C6: on the ordered node list, \<^verbatim>\<open>get_block_containing_inst\<close> fetches the block with the
  greatest start \<open>s \<le> A\<close>, returns it when \<open>A\<close> is one of its instruction addresses and
  raises \<^verbatim>\<open>MissingBlockException\<close> when it is not. When \<open>A\<close> is below every block start the
  index \<open>-1\<close> fetches the last block, whose instructions all lie above \<open>A\<close>, and the lookup
  raises \<^verbatim>\<open>MissingBlockException\<close> as well.
\<close>

theorem get_block_containing_inst_greatest_start:
  assumes ord: "ord = get_ordered_nodes nodes"
  shows "(s \<in> set ord \<and> s \<le> A \<and> (\<forall>t\<in>set ord. t \<le> A \<longrightarrow> t \<le> s)
            \<and> any_node s = Some n \<and> addr n = s
          \<longrightarrow> get_block_containing_inst any_node ord A =
                (if A \<in> set (instruction_addrs n) then Inr s else Inl MissingBlockException))
       \<and> (nodes \<noteq> [] \<and> (\<forall>t\<in>set ord. A < t)
            \<and> any_node (last ord) = Some m \<and> (\<forall>a\<in>set (instruction_addrs m). last ord \<le> a)
          \<longrightarrow> get_block_containing_inst any_node ord A = Inl MissingBlockException)"
proof (intro conjI impI)
  have srt: "sorted ord" by (simp add: ord sorted_get_ordered_nodes)
  {
    assume h: "s \<in> set ord \<and> s \<le> A \<and> (\<forall>t\<in>set ord. t \<le> A \<longrightarrow> t \<le> s)
            \<and> any_node s = Some n \<and> addr n = s"
    then have "py_index ord (int (bisect_right ord A) - 1) = Inr s"
      using bisect_index_greatest [OF srt, of s A] by blast
    with h show "get_block_containing_inst any_node ord A =
                (if A \<in> set (instruction_addrs n) then Inr s else Inl MissingBlockException)"
      by (simp add: get_block_containing_inst_def)
  }
  {
    assume h: "nodes \<noteq> [] \<and> (\<forall>t\<in>set ord. A < t)
            \<and> any_node (last ord) = Some m \<and> (\<forall>a\<in>set (instruction_addrs m). last ord \<le> a)"
    have "set ord = addr ` set nodes" by (simp add: ord get_ordered_nodes_remdups_adj)
    moreover have "set nodes \<noteq> {}" using h by simp
    ultimately have ne: "ord \<noteq> []" by fastforce
    then have lm: "last ord \<in> set ord" by simp
    have "py_index ord (int (bisect_right ord A) - 1) = Inr (last ord)"
      using bisect_index_below [OF srt ne] h by blast
    moreover have "A \<notin> set (instruction_addrs m)"
      using h lm by fastforce
    ultimately show "get_block_containing_inst any_node ord A = Inl MissingBlockException"
      using h by (simp add: get_block_containing_inst_def)
  }
qed

theorem get_block_containing_inst_greatest_start_witness:
  "get_block_containing_inst (get_any_node example_env)
       (get_ordered_nodes (cfg_nodes example_env)) 0x8048106 = Inr 0x8048100
   \<and> get_block_containing_inst (get_any_node example_env)
       (get_ordered_nodes (cfg_nodes example_env)) 0x8048201 = Inl MissingBlockException
   \<and> get_block_containing_inst (get_any_node example_env)
       (get_ordered_nodes (cfg_nodes example_env)) 0x8048000 = Inl MissingBlockException"
proof -
  have o: "get_ordered_nodes (cfg_nodes example_env) = [0x8048100, 0x8048200, 0x8048300]"
    by (simp add: example_env_def get_ordered_nodes_def)
  have ne: "cfg_nodes example_env \<noteq> []" by (simp add: example_env_def)
  show ?thesis
    using get_block_containing_inst_greatest_start
            [OF refl, of "0x8048100" "cfg_nodes example_env" "0x8048106"
               "get_any_node example_env"
               "\<lparr>addr = 0x8048100,
                 instruction_addrs = [0x8048100, 0x8048101, 0x8048103, 0x8048106, 0x804810b]\<rparr>"]
          get_block_containing_inst_greatest_start
            [OF refl, of "0x8048200" "cfg_nodes example_env" "0x8048201"
               "get_any_node example_env"
               "\<lparr>addr = 0x8048200, instruction_addrs = [0x8048200, 0x8048205]\<rparr>"]
          get_block_containing_inst_greatest_start
            [OF refl, of _ "cfg_nodes example_env" "0x8048000" "get_any_node example_env" _
               "\<lparr>addr = 0x8048300, instruction_addrs = [0x8048300, 0x8048301]\<rparr>"]
    unfolding o using ne by (simp add: example_env_def)
qed

section \<open>The movability oracle\<close>

text \<open>
  C5: \<^verbatim>\<open>check_if_movable\<close> returns a value exactly when the instruction's bytes decode at
  the three bases \<^verbatim>\<open>0x0\<close>, \<^verbatim>\<open>0x07f00000\<close> and \<^verbatim>\<open>0xfe000000\<close>, and that value is \<^verbatim>\<open>True\<close> if
  and only if the three texts, each without its first two words, are identical.
\<close>

theorem check_if_movable_iff_same_text:
  "check_if_movable e i = Inr b \<longleftrightarrow>
     (\<exists>t1 t2 t3.
        bytes_to_comparable_str e (bytes i) 0x0 = Inr t1
        \<and> bytes_to_comparable_str e (bytes i) 0x07f00000 = Inr t2
        \<and> bytes_to_comparable_str e (bytes i) 0xfe000000 = Inr t3
        \<and> (b \<longleftrightarrow> t1 = t2 \<and> t2 = t3 \<and> t1 = t3))"
  by (auto simp: check_if_movable_def Let_def split: sum.splits)

lemma hex_digits_numeral:
  "hex_digits (numeral k) =
     (if (numeral k :: nat) < 16 then [hex_digit (numeral k)]
      else hex_digits (numeral k div 16) @ [hex_digit (numeral k mod 16)])"
  by (rule hex_digits.simps)

lemma hex_digits_small: "hex_digits 0 = ''0''" "hex_digits 1 = ''1''" "hex_digits (Suc 0) = ''1''"
  by (simp_all add: hex_digits.simps [of 0] hex_digits.simps [of 1] hex_digits.simps [of "Suc 0"]
      hex_digit_def)

lemmas py_hex_eval = py_hex_def hex_digits_numeral hex_digits_small hex_digit_def

theorem check_if_movable_iff_same_text_witness:
  "check_if_movable example_env
     \<lparr>address = 0x8048300, bytes = [CHR 0x90], mnemonic = ''nop'', op_str = []\<rparr> = Inr True
   \<and> check_if_movable example_env
     \<lparr>address = 0x8048301, bytes = [CHR 0x75, CHR 0xfd], mnemonic = ''jne'',
       op_str = ''0x8048300''\<rparr> = Inr False"
proof -
  have a: "bytes_to_comparable_str example_env [CHR 0x90] 0x0 = Inr ''nop''"
    "bytes_to_comparable_str example_env [CHR 0x90] 0x07f00000 = Inr ''nop''"
    "bytes_to_comparable_str example_env [CHR 0x90] 0xfe000000 = Inr ''nop''"
    by (simp_all add: bytes_to_comparable_str_def example_env_def py_index_def py_split_def
        is_space_def py_hex_eval)
  have b: "bytes_to_comparable_str example_env [CHR 0x75, CHR 0xfd] 0x0 = Inr ''jne 0xff''"
    "bytes_to_comparable_str example_env [CHR 0x75, CHR 0xfd] 0x07f00000 = Inr ''jne 0x7f000ff''"
    "bytes_to_comparable_str example_env [CHR 0x75, CHR 0xfd] 0xfe000000 = Inr ''jne 0xfe0000ff''"
    by (simp_all add: bytes_to_comparable_str_def example_env_def py_index_def py_split_def
        is_space_def py_hex_eval)
  show ?thesis
    using check_if_movable_iff_same_text [of example_env
            "\<lparr>address = 0x8048300, bytes = [CHR 0x90], mnemonic = ''nop'', op_str = []\<rparr>" True]
          check_if_movable_iff_same_text [of example_env
            "\<lparr>address = 0x8048301, bytes = [CHR 0x75, CHR 0xfd], mnemonic = ''jne'',
              op_str = ''0x8048300''\<rparr>" False]
    by (simp add: a b)
qed

section \<open>The trampoline slot\<close>

lemma detour_search_block:
  "detour_search patch_addr movable_bb_start (PyBlock blk) attempts =
     (if \<exists>pos\<in>set attempts. movable_bb_start \<le> patch_addr + pos then Inl TypeError
      else Inr None)"
  by (induction attempts) (simp_all add: py_add_def Let_def)

text \<open>
  What the search does when it is given the size of the window as an integer: it returns
  the first start \<open>patch_addr + pos\<close> whose five bytes lie inside the window.
\<close>

lemma detour_search_int:
  "detour_search patch_addr movable_bb_start (PyInt window_size) attempts =
     Inr (map_option (\<lambda>pos. patch_addr + pos)
            (List.find (\<lambda>pos. movable_bb_start \<le> patch_addr + pos
                              \<and> patch_addr + pos + 5 \<le> movable_bb_start + window_size)
               attempts))"
  by (induction attempts) (auto simp: py_add_def Let_def detour_size_def)

lemma example_ordered_nodes:
  "get_ordered_nodes (cfg_nodes example_env) = [0x8048100, 0x8048200, 0x8048300]"
  by (simp add: example_env_def get_ordered_nodes_def)

lemma example_block_at_0x8048200:
  "get_block_containing_inst (get_any_node example_env) [0x8048100, 0x8048200, 0x8048300]
     0x8048200 = Inr 0x8048200"
proof -
  have "py_index [0x8048100, 0x8048200, 0x8048300 :: int]
          (int (bisect_right [0x8048100, 0x8048200, 0x8048300] 0x8048200) - 1) = Inr 0x8048200"
    by (rule bisect_index_greatest) simp_all
  then show ?thesis
    by (simp add: get_block_containing_inst_def example_env_def)
qed

lemma example_block2_decoded:
  "example_decompile example_block2 0x8048200 =
     [\<lparr>address = 0x8048200, bytes = [CHR 0xb8, CHR 0x01, CHR 0x00, CHR 0x00, CHR 0x00],
        mnemonic = ''mov'', op_str = ''eax, 0x1''\<rparr>,
      \<lparr>address = 0x8048205, bytes = [CHR 0xc3], mnemonic = ''ret'', op_str = []\<rparr>]"
  by (simp add: example_block2_def py_hex_eval)

lemma example_ret_movable:
  "check_if_movable example_env
     \<lparr>address = a, bytes = [CHR 0xc3], mnemonic = ''ret'', op_str = []\<rparr> = Inr True"
  by (simp add: check_if_movable_def bytes_to_comparable_str_def example_env_def py_index_def
      py_split_def is_space_def py_hex_eval)

lemma py_index_error: "py_index xs i = Inl err \<Longrightarrow> err = IndexError"
  by (simp add: py_index_def Let_def split: if_splits)

lemma get_block_containing_inst_error:
  "get_block_containing_inst any_node ord a = Inl err \<Longrightarrow>
     err = IndexError \<or> err = AttributeError \<or> err = MissingBlockException"
  by (auto simp: get_block_containing_inst_def Let_def dest: py_index_error
      split: sum.splits option.splits if_splits)

lemma bytes_to_comparable_str_error:
  "bytes_to_comparable_str e b off = Inl err \<Longrightarrow> err = IndexError"
  by (auto simp: bytes_to_comparable_str_def dest: py_index_error split: sum.splits)

lemma check_if_movable_error: "check_if_movable e i = Inl err \<Longrightarrow> err = IndexError"
  by (auto simp: check_if_movable_def Let_def dest: bytes_to_comparable_str_error
      split: sum.splits if_splits)

lemma insert_detour_outcomes:
  "insert_detour e p patch_addr patch_code = Some (Inl MissingBlockException)
   \<or> insert_detour e p patch_addr patch_code = Some (Inl IndexError)
   \<or> insert_detour e p patch_addr patch_code = Some (Inl AttributeError)
   \<or> insert_detour e p patch_addr patch_code = Some (Inl TypeError)
   \<or> insert_detour e p patch_addr patch_code
        = Some (Inl (DetourException ''No movable instructions found''))"
  by (auto simp: insert_detour_def Let_def detour_search_block py_hex_val_def
      dest: py_index_error get_block_containing_inst_error check_if_movable_error
      split: sum.splits option.splits)

text \<open>
  C2: in \<^verbatim>\<open>insert_detour\<close> the variable \<^verbatim>\<open>movable_bb_size\<close> holds a block object. The search
  raises \<^verbatim>\<open>TypeError\<close> at the first offset whose start is not below the window, and when
  there is no such offset the arguments of the \<^verbatim>\<open>DetourException\<close> raise it. So no call of
  \<^verbatim>\<open>insert_detour\<close> selects a trampoline start and returns, and none raises the
  \<^verbatim>\<open>DetourException\<close> with the cause \<^verbatim>\<open>"No space in bb"\<close>; on the block
  \<^verbatim>\<open>mov eax, 1; ret\<close> at \<^verbatim>\<open>0x8048200\<close>, patched at its first instruction, the call raises
  \<^verbatim>\<open>TypeError\<close>.
\<close>

theorem insert_detour_never_selects:
  "insert_detour e p patch_addr patch_code \<noteq> Some (Inl (DetourException ''No space in bb''))
   \<and> (\<forall>p'. insert_detour e p patch_addr patch_code \<noteq> Some (Inr p'))
   \<and> insert_detour example_env
        (q\<lparr>ordered_nodes := get_ordered_nodes (cfg_nodes example_env)\<rparr>)
        0x8048200 ''inc ebx'' = Some (Inl TypeError)"
proof (intro conjI allI)
  show "insert_detour e p patch_addr patch_code
          \<noteq> Some (Inl (DetourException ''No space in bb''))"
    using insert_detour_outcomes [of e p patch_addr patch_code] by auto
  show "insert_detour e p patch_addr patch_code \<noteq> Some (Inr p')" for p'
    using insert_detour_outcomes [of e p patch_addr patch_code] by auto
  have blk: "factory_block example_env 0x8048200 None
               = \<lparr>block_size = 6, block_bytes = example_block2\<rparr>"
    by (simp add: example_env_def example_factory_block_def example_block_start_def
        example_block2_decoded [unfolded example_block2_def] example_block2_def)
  show "insert_detour example_env
          (q\<lparr>ordered_nodes := get_ordered_nodes (cfg_nodes example_env)\<rparr>)
          0x8048200 ''inc ebx'' = Some (Inl TypeError)"
    unfolding insert_detour_def example_ordered_nodes
    apply (simp add: example_block_at_0x8048200 blk Let_def)
    apply (simp add: example_env_def [THEN arg_cong, of decompile] example_block2_decoded
        py_index_def example_ret_movable detour_search_block detour_attempts_def
        detour_size_def py_hex_val_def)
    done
qed

section \<open>Properties of the byte-string operations\<close>

lemma py_slice_nonneg:
  "0 \<le> i \<Longrightarrow> 0 \<le> j \<Longrightarrow> py_slice xs i j = take (nat j - nat i) (drop (nat i) xs)"
proof (cases "nat i \<le> length xs")
  case True
  assume a: "0 \<le> i" "0 \<le> j"
  have i: "min i (int (length xs)) = i" using True a by simp
  show ?thesis
  proof (cases "j \<le> int (length xs)")
    case jl: True
    have "nat (j - i) = nat j - nat i" using a by (simp add: nat_diff_distrib')
    then show ?thesis using a jl by (simp add: py_slice_def Let_def i min_def)
  next
    case jg: False
    have "length (drop (nat i) xs) \<le> nat (int (length xs) - i)" using a by simp
    moreover have "length (drop (nat i) xs) \<le> nat j - nat i" using a jg by simp
    ultimately show ?thesis using a jg by (simp add: py_slice_def Let_def i min_def)
  qed
next
  case False
  assume a: "0 \<le> i" "0 \<le> j"
  have "min i (int (length xs)) = int (length xs)" using False a by simp
  then show ?thesis using False a by (simp add: py_slice_def Let_def)
qed

lemma py_slice_nat: "py_slice xs (int a) (int b) = take (b - a) (drop a xs)"
  by (simp add: py_slice_nonneg)

lemma length_py_slice_nonneg:
  "0 \<le> i \<Longrightarrow> 0 \<le> j \<Longrightarrow> length (py_slice xs i j) = min (nat j - nat i) (length xs - nat i)"
  by (simp add: py_slice_nonneg min.commute)

lemma str_overwrite_None: "str_overwrite s new None = s @ new"
  by (simp add: str_overwrite_def)

lemma length_str_overwrite:
  "k + length new \<le> length s \<Longrightarrow> length (str_overwrite s new (Some k)) = length s"
  by (simp add: str_overwrite_def)

lemma length_str_overwrite_ge: "length s \<le> length (str_overwrite s new pos)"
  by (cases pos) (auto simp: str_overwrite_def)

lemma slice_str_overwrite_same:
  "k \<le> length s \<Longrightarrow> take (length new) (drop k (str_overwrite s new (Some k))) = new"
  by (simp add: str_overwrite_def)

lemma slice_str_overwrite_before:
  "a + n \<le> k \<Longrightarrow> k \<le> length s \<Longrightarrow>
   take n (drop a (str_overwrite s new (Some k))) = take n (drop a s)"
proof -
  assume h: "a + n \<le> k" "k \<le> length s"
  have "take n (drop a (str_overwrite s new (Some k))) = take n (drop a (take k s))"
    using h by (simp add: str_overwrite_def)
  also have "\<dots> = take n (take (k - a) (drop a s))" by (simp add: drop_take)
  also have "\<dots> = take n (drop a s)" using h by (simp add: min_def)
  finally show ?thesis .
qed

lemma slice_str_overwrite_after:
  "k + length new \<le> a \<Longrightarrow> k + length new \<le> length s \<Longrightarrow>
   drop a (str_overwrite s new (Some k)) = drop a s"
  by (simp add: str_overwrite_def min_def)

lemma length_pad_str_ge: "length s \<le> length (pad_str s n)"
  by (simp add: pad_str_def)

lemma length_pack_le [simp]: "length (pack_le k v) = k"
  by (induction k arbitrary: v) simp_all

lemma pack_le_numeral:
  "pack_le (numeral k) v = char_of (v mod 256) # pack_le (pred_numeral k) (v div 256)"
proof -
  have "pack_le (Suc (pred_numeral k)) v
          = char_of (v mod 256) # pack_le (pred_numeral k) (v div 256)"
    by (rule pack_le.simps)
  then show ?thesis by (simp only: numeral_eq_Suc [of k, symmetric])
qed

lemma pack_le_Suc_0: "pack_le (Suc 0) v = [char_of (v mod 256)]"
  by simp

lemma length_pack_I: "pack_I v = Inr b \<Longrightarrow> length b = 4"
  by (auto simp: pack_I_def split: option.splits if_splits)

lemma length_pack_Is: "pack_Is vs = Inr b \<Longrightarrow> length b = 4 * length vs"
proof (induction vs arbitrary: b)
  case Nil
  then show ?case by simp
next
  case (Cons v vs)
  from Cons.prems obtain b1 b2 where b: "pack_I v = Inr b1" "pack_Is vs = Inr b2" "b = b1 @ b2"
    by (cases "pack_I v"; cases "pack_Is vs") simp_all
  show ?case using length_pack_I [OF b(1)] Cons.IH [OF b(2)] b(3) by simp
qed

lemma length_pack_IIIIIIII: "pack_IIIIIIII vs = Inr b \<Longrightarrow> length b = 32"
  by (auto simp: pack_IIIIIIII_def split: if_splits dest: length_pack_Is)

lemma length_pack_H: "pack_H n = Inr b \<Longrightarrow> length b = 2"
  by (auto simp: pack_H_def split: if_splits)

section \<open>Header setup is idempotent\<close>

lemma length_dump_segments_loop:
  "dump_segments_loop content phoff idx = Inr segs \<Longrightarrow> length segs = length idx"
proof (induction idx arbitrary: segs)
  case Nil
  then show ?case by simp
next
  case (Cons i idx)
  let ?hdr = "py_slice content (int (phoff + phent_size * i))
                (int (phoff + phent_size * i + phent_size))"
  from Cons.prems obtain segment rest where
    r: "dump_segments_loop content phoff idx = Inr rest" "segs = segment # rest"
    by (cases "unpack_IIIIIIII ?hdr"; cases "dump_segments_loop content phoff idx")
       (auto simp: Let_def split: if_splits)
  show ?case using Cons.IH [OF r(1)] r(2) by simp
qed

lemma dump_segments_Inr:
  assumes "dump_segments content = Inr segs"
  shows "header_size \<le> length content" and "segs \<noteq> []"
proof -
  obtain h where h: "unpack_header (py_slice content 0 (int header_size)) = Inr h"
    and n: "cgcef_phnum h \<noteq> 0"
    and l: "dump_segments_loop content (cgcef_phoff h) [0..<cgcef_phnum h] = Inr segs"
    using assms by (auto simp: dump_segments_def split: sum.splits if_splits)
  from h have "length (py_slice content 0 (int header_size)) = header_size"
    by (auto simp: unpack_header_def split: if_splits)
  then show "header_size \<le> length content"
    by (simp add: py_slice_nonneg header_size_def)
  from length_dump_segments_loop [OF l] n show "segs \<noteq> []" by auto
qed

lemma length_copy_segments:
  "copy_segments content segs = Inr c \<Longrightarrow> length c = length content + 32 * length segs"
proof (induction segs arbitrary: content)
  case Nil
  then show ?case by simp
next
  case (Cons segment segs)
  from Cons.prems obtain b where
    b: "pack_IIIIIIII (map Some segment) = Inr b"
       "copy_segments (str_overwrite content b None) segs = Inr c"
    by (cases "pack_IIIIIIII (map Some segment)") simp_all
  show ?case
    using Cons.IH [OF b(2)] length_pack_IIIIIIII [OF b(1)] by (simp add: str_overwrite_None)
qed

lemma is_patched_str_overwrite:
  assumes "0x34 \<le> length c"
  shows "py_slice (str_overwrite c patched_tag (Some 0x34)) 0x34
           (0x34 + int (length patched_tag)) = patched_tag"
proof -
  have "py_slice (str_overwrite c patched_tag (Some 0x34)) 0x34
          (0x34 + int (length patched_tag))
        = take (length patched_tag) (drop 0x34 (str_overwrite c patched_tag (Some 0x34)))"
    by (simp add: py_slice_nonneg nat_add_distrib)
  also have "\<dots> = patched_tag"
    using assms by (rule slice_str_overwrite_same)
  finally show ?thesis .
qed

lemma setup_headers_cases:
  assumes "setup_headers p = Inr p1"
  shows "(is_patched (p\<lparr>ncontent := ocontent p\<rparr>) \<and> p1 = p\<lparr>ncontent := ocontent p\<rparr>)
       \<or> (\<not> is_patched (p\<lparr>ncontent := ocontent p\<rparr>)
          \<and> (\<exists>segs b c3.
                dump_segments (ocontent p) = Inr segs
                \<and> pack_I (Some (length (pad_str (ocontent p) 0x10))) = Inr b
                \<and> copy_segments (str_overwrite (pad_str (ocontent p) 0x10) b (Some 0x1C)) segs
                    = Inr c3
                \<and> p1 = p\<lparr>ncontent := str_overwrite c3 patched_tag (Some 0x34),
                          segments := Some segs,
                          original_header_end := Some (length c3)\<rparr>))"
  using assms by (auto simp: setup_headers_def Let_def split: if_splits sum.splits)

lemma setup_headers_is_patched:
  assumes "setup_headers p = Inr p1"
  shows "is_patched p1"
  using setup_headers_cases [OF assms]
proof (elim disjE conjE exE)
  assume "is_patched (p\<lparr>ncontent := ocontent p\<rparr>)" "p1 = p\<lparr>ncontent := ocontent p\<rparr>"
  then show ?thesis by simp
next
  fix segs b c3
  assume d: "dump_segments (ocontent p) = Inr segs"
    and c: "copy_segments (str_overwrite (pad_str (ocontent p) 0x10) b (Some 0x1C)) segs = Inr c3"
    and p1: "p1 = p\<lparr>ncontent := str_overwrite c3 patched_tag (Some 0x34),
                      segments := Some segs, original_header_end := Some (length c3)\<rparr>"
  have "header_size \<le> length (ocontent p)" using dump_segments_Inr(1) [OF d] .
  also have "\<dots> \<le> length (pad_str (ocontent p) 0x10)" by (rule length_pad_str_ge)
  also have "\<dots> \<le> length (str_overwrite (pad_str (ocontent p) 0x10) b (Some 0x1C))"
    by (rule length_str_overwrite_ge)
  also have "\<dots> \<le> length c3" using length_copy_segments [OF c] by simp
  finally have "0x34 \<le> length c3" by (simp add: header_size_def)
  then show ?thesis
    unfolding is_patched_def p1 by (simp add: is_patched_str_overwrite)
qed

lemma setup_headers_ocontent: "setup_headers p = Inr p1 \<Longrightarrow> ocontent p1 = ocontent p"
  using setup_headers_cases [of p p1] by auto

lemma setup_headers_on_patched:
  "is_patched (p\<lparr>ncontent := ocontent p\<rparr>) \<Longrightarrow> setup_headers p = Inr (p\<lparr>ncontent := ocontent p\<rparr>)"
  by (simp add: setup_headers_def Let_def)

lemma is_patched_ncontent: "ncontent p = ncontent q \<Longrightarrow> is_patched p = is_patched q"
  by (simp add: is_patched_def)


text \<open>
  C9: after one successful \<^verbatim>\<open>setup_headers\<close> the image carries the marker; a second
  \<^verbatim>\<open>setup_headers\<close> on the same patcher returns the same state, and a patcher constructed
  on the saved image keeps its bytes as they are.
\<close>

theorem setup_headers_idempotent:
  assumes "setup_headers p = Inr p1"
  shows "is_patched p1
       \<and> setup_headers p1 = Inr p1
       \<and> (\<exists>q. new_patcher e (save p1) = Inr q \<and> save q = save p1)"
proof (intro conjI)
  show m: "is_patched p1" by (rule setup_headers_is_patched [OF assms])
  show "setup_headers p1 = Inr p1"
    using setup_headers_cases [OF assms]
  proof (elim disjE conjE exE)
    assume "is_patched (p\<lparr>ncontent := ocontent p\<rparr>)" "p1 = p\<lparr>ncontent := ocontent p\<rparr>"
    then show ?thesis by (simp add: setup_headers_def Let_def)
  next
    fix segs b c3
    assume n: "\<not> is_patched (p\<lparr>ncontent := ocontent p\<rparr>)"
      and d: "dump_segments (ocontent p) = Inr segs"
      and k: "pack_I (Some (length (pad_str (ocontent p) 0x10))) = Inr b"
      and c: "copy_segments (str_overwrite (pad_str (ocontent p) 0x10) b (Some 0x1C)) segs = Inr c3"
      and p1: "p1 = p\<lparr>ncontent := str_overwrite c3 patched_tag (Some 0x34),
                        segments := Some segs, original_header_end := Some (length c3)\<rparr>"
    have n': "\<not> is_patched (p1\<lparr>ncontent := ocontent p1\<rparr>)"
      using n by (simp add: p1 is_patched_def)
    show ?thesis
      using n' by (simp add: setup_headers_def Let_def p1 d k c is_patched_def)
  qed
  show "\<exists>q. new_patcher e (save p1) = Inr q \<and> save q = save p1"
    using m by (simp add: new_patcher_def setup_headers_def Let_def save_def is_patched_def)
qed

lemma upt_0_8: "[0..<8] = [0, 1, 2, 3, 4, 5, 6, 7 :: nat]"
  by code_simp

lemma example_dump_segments:
  "dump_segments example_small_image = Inr [[1, 0, 0x8048000, 0x8048000, 0x303, 0x303, 5, 0x1000]]"
  unfolding example_small_image_def example_header_def example_phdr_def
  by (simp add: dump_segments_def unpack_header_def header_size_def py_slice_nonneg
      phent_size_def unpack_IIIIIIII_def pt_types_def upt_0_8)

lemma example_small_image_length: "length example_small_image = 84"
  by (simp add: example_small_image_def example_header_def example_phdr_def)

lemma example_small_image_unpatched:
  "py_slice example_small_image 0x34 (0x34 + int (length patched_tag)) \<noteq> patched_tag"
  by (simp add: py_slice_nonneg patched_tag_def example_small_image_def example_header_def
      example_phdr_def)

lemma example_setup_headers:
  "\<exists>p1. setup_headers example_fresh = Inr p1"
  by (simp add: setup_headers_def Let_def example_fresh_def is_patched_def example_dump_segments
      example_small_image_unpatched pack_I_def pad_str_def example_small_image_length
      pack_IIIIIIII_def)

theorem setup_headers_idempotent_witness:
  "\<exists>p1. setup_headers example_fresh = Inr p1
        \<and> is_patched p1
        \<and> setup_headers p1 = Inr p1
        \<and> (\<exists>q. new_patcher example_env (save p1) = Inr q \<and> save q = save p1)"
proof -
  obtain p1 where p1: "setup_headers example_fresh = Inr p1"
    using example_setup_headers by blast
  show ?thesis
    using p1 setup_headers_idempotent [OF p1, of example_env] by blast
qed

section \<open>The compile pipeline, phase by phase\<close>









section \<open>Reading and writing the program headers\<close>

lemma of_char_char_of_mod: "of_char (char_of (v mod 256 :: nat)) = v mod 256"
  by simp

lemma unpack_pack_le: "v < 256 ^ k \<Longrightarrow> unpack_le (pack_le k v) = v"
proof (induction k arbitrary: v)
  case 0
  then show ?case by simp
next
  case (Suc k)
  have "v div 256 < 256 ^ k" using Suc.prems by (simp add: less_mult_imp_div_less mult.commute)
  then have "unpack_le (pack_le k (v div 256)) = v div 256" by (rule Suc.IH)
  then show ?case by simp
qed

lemma slice_str_overwrite_behind:
  "k + length new \<le> a \<Longrightarrow> k + length new \<le> length s \<Longrightarrow>
   take n (drop a (str_overwrite s new (Some k))) = take n (drop a s)"
  by (simp add: slice_str_overwrite_after)

lemma dump_segments_example:
  "dump_segments (example_header @ example_phdr @ rest)
     = Inr [[1, 0, 0x8048000, 0x8048000, 0x303, 0x303, 5, 0x1000]]"
  unfolding example_header_def example_phdr_def
  by (simp add: dump_segments_def unpack_header_def header_size_def py_slice_nonneg
      phent_size_def unpack_IIIIIIII_def pt_types_def upt_0_8)

lemma example_image_length: "length example_image = 771"
  by (simp add: example_image_def example_header_def example_phdr_def example_block1_def
      example_block2_def example_block3_def)

lemma example_image_unpatched:
  "py_slice example_image 0x34 (0x34 + int (length patched_tag)) \<noteq> patched_tag"
  by (simp add: py_slice_nonneg patched_tag_def example_image_def example_header_def
      example_phdr_def)

lemma example_image_phnum: "take 2 (drop 0x2c example_image) = [CHR 0x01, CHR 0x00]"
  by (simp add: example_image_def example_header_def)

lemma copy_segments_appends:
  "copy_segments content segs = Inr c \<Longrightarrow> \<exists>t. c = content @ t \<and> length t = 32 * length segs"
proof (induction segs arbitrary: content)
  case Nil
  then show ?case by simp
next
  case (Cons segment segs)
  from Cons.prems obtain b where
    b: "pack_IIIIIIII (map Some segment) = Inr b"
       "copy_segments (str_overwrite content b None) segs = Inr c"
    by (cases "pack_IIIIIIII (map Some segment)") simp_all
  from Cons.IH [OF b(2)] obtain t where
    t: "c = str_overwrite content b None @ t" "length t = 32 * length segs" by blast
  have "c = content @ (b @ t)" using t(1) by (simp add: str_overwrite_None)
  moreover have "length (b @ t) = 32 * length (segment # segs)"
    using t(2) length_pack_IIIIIIII [OF b(1)] by simp
  ultimately show ?case by blast
qed

lemma pad_str_appends: "\<exists>z. pad_str s n = s @ z"
  by (simp add: pad_str_def)

lemma setup_headers_fresh:
  assumes ok: "setup_headers p = Inr p1"
    and unp: "\<not> is_patched (p\<lparr>ncontent := ocontent p\<rparr>)"
  shows "\<exists>segs. dump_segments (ocontent p) = Inr segs
           \<and> length (ncontent p1) = length (pad_str (ocontent p) 0x10) + 32 * length segs
           \<and> original_header_end p1 = Some (length (ncontent p1))
           \<and> take 2 (drop 0x2c (ncontent p1)) = take 2 (drop 0x2c (ocontent p))
           \<and> p1 = p\<lparr>ncontent := ncontent p1, segments := Some segs,
                     original_header_end := Some (length (ncontent p1))\<rparr>"
proof -
  from setup_headers_cases [OF ok] unp obtain segs b c3 where
    d: "dump_segments (ocontent p) = Inr segs"
    and k: "pack_I (Some (length (pad_str (ocontent p) 0x10))) = Inr b"
    and c: "copy_segments (str_overwrite (pad_str (ocontent p) 0x10) b (Some 0x1C)) segs = Inr c3"
    and p1: "p1 = p\<lparr>ncontent := str_overwrite c3 patched_tag (Some 0x34),
                      segments := Some segs, original_header_end := Some (length c3)\<rparr>"
    by blast
  let ?c1 = "pad_str (ocontent p) 0x10"
  let ?c2 = "str_overwrite ?c1 b (Some 0x1C)"
  have l0: "52 \<le> length (ocontent p)"
    using dump_segments_Inr(1) [OF d] by (simp add: header_size_def)
  have l1: "52 \<le> length ?c1" using l0 length_pad_str_ge [of "ocontent p" "0x10"] by simp
  have lb: "length b = 4" by (rule length_pack_I [OF k])
  have l2: "length ?c2 = length ?c1" using l1 lb by (simp add: length_str_overwrite)
  from copy_segments_appends [OF c] obtain t where
    t: "c3 = ?c2 @ t" "length t = 32 * length segs" by blast
  have ne: "segs \<noteq> []" by (rule dump_segments_Inr(2) [OF d])
  then have lt: "32 \<le> length t" using t(2) by (cases segs) simp_all
  have l3: "length c3 = length ?c1 + 32 * length segs" using t l2 by simp
  have l3': "0x34 + length patched_tag \<le> length c3"
    using l3 l1 lt t(2) by (simp add: patched_tag_def)
  have l4: "length (str_overwrite c3 patched_tag (Some 0x34)) = length c3"
    using l3' by (simp add: length_str_overwrite)
  have "take 2 (drop 0x2c (str_overwrite c3 patched_tag (Some 0x34))) = take 2 (drop 0x2c c3)"
    using l3' by (intro slice_str_overwrite_before) simp_all
  also have "\<dots> = take 2 (drop 0x2c ?c2)" using t(1) l2 l1 by simp
  also have "\<dots> = take 2 (drop 0x2c ?c1)"
    using l1 lb by (intro slice_str_overwrite_behind) simp_all
  also have "\<dots> = take 2 (drop 0x2c (ocontent p))"
  proof -
    obtain z where "?c1 = ocontent p @ z" using pad_str_appends by blast
    then show ?thesis using l0 by simp
  qed
  finally have ph: "take 2 (drop 0x2c (str_overwrite c3 patched_tag (Some 0x34)))
                      = take 2 (drop 0x2c (ocontent p))" .
  show ?thesis
    using d l3 l4 ph by (intro exI [of _ segs]) (simp add: p1)
qed

lemma example_new_patcher:
  "\<exists>p0. new_patcher example_env example_image = Inr p0
        \<and> is_patched p0
        \<and> length (ncontent p0) = 816
        \<and> original_header_end p0 = Some 816
        \<and> take 2 (drop 0x2c (ncontent p0)) = [CHR 0x01, CHR 0x00]
        \<and> patches p0 = []
        \<and> ordered_nodes p0 = [0x8048100, 0x8048200, 0x8048300]"
proof -
  define f where "f = \<lparr> ocontent = example_image, ncontent = [], segments = None,
       original_header_end = None, patches = [], name_map = Map.empty,
       added_code = [], added_data = [],
       curr_code_position = added_code_segment,
       curr_data_position = added_data_segment,
       curr_file_position = 0,
       added_code_file_start = None, added_data_file_start = None,
       ordered_nodes = [] \<rparr>"
  have oc: "ocontent f = example_image" by (simp add: f_def)
  have unp: "\<not> is_patched (f\<lparr>ncontent := ocontent f\<rparr>)"
    using example_image_unpatched by (simp add: is_patched_def oc)
  have ds: "dump_segments example_image
              = Inr [[1, 0, 0x8048000, 0x8048000, 0x303, 0x303, 5, 0x1000]]"
    unfolding example_image_def by (simp add: dump_segments_example)
  have pl: "length (pad_str example_image 0x10) = 784"
    by (simp add: pad_str_def example_image_length)
  have "\<exists>p1. setup_headers f = Inr p1"
    using unp
    by (simp add: setup_headers_def Let_def oc ds pl pack_I_def pack_IIIIIIII_def)
  then obtain p1 where p1: "setup_headers f = Inr p1" by blast
  from setup_headers_fresh [OF p1 unp] ds oc pl
  have props: "length (ncontent p1) = 816" "original_header_end p1 = Some 816"
    "take 2 (drop 0x2c (ncontent p1)) = [CHR 0x01, CHR 0x00]"
    by (auto simp: example_image_phnum)
  have m: "is_patched p1" by (rule setup_headers_is_patched [OF p1])
  show ?thesis
    using p1 props m
    by (simp add: new_patcher_def f_def [symmetric] is_patched_def example_ordered_nodes)
qed

lemma unpack_pack_IIIIIIII:
  assumes "v0 < 2 ^ 32" "v1 < 2 ^ 32" "v2 < 2 ^ 32" "v3 < 2 ^ 32"
    "v4 < 2 ^ 32" "v5 < 2 ^ 32" "v6 < 2 ^ 32" "v7 < 2 ^ 32"
  shows "pack_IIIIIIII [Some v0, Some v1, Some v2, Some v3, Some v4, Some v5, Some v6, Some v7]
           = Inr (pack_le 4 v0 @ pack_le 4 v1 @ pack_le 4 v2 @ pack_le 4 v3
                  @ pack_le 4 v4 @ pack_le 4 v5 @ pack_le 4 v6 @ pack_le 4 v7)"
    and "unpack_IIIIIIII (pack_le 4 v0 @ pack_le 4 v1 @ pack_le 4 v2 @ pack_le 4 v3
                  @ pack_le 4 v4 @ pack_le 4 v5 @ pack_le 4 v6 @ pack_le 4 v7)
           = Inr [v0, v1, v2, v3, v4, v5, v6, v7]"
proof -
  show "pack_IIIIIIII [Some v0, Some v1, Some v2, Some v3, Some v4, Some v5, Some v6, Some v7]
           = Inr (pack_le 4 v0 @ pack_le 4 v1 @ pack_le 4 v2 @ pack_le 4 v3
                  @ pack_le 4 v4 @ pack_le 4 v5 @ pack_le 4 v6 @ pack_le 4 v7)"
    using assms by (simp add: pack_IIIIIIII_def pack_I_def)
  have u: "v < 2 ^ 32 \<Longrightarrow> unpack_le (pack_le 4 v) = v" for v :: nat
    by (rule unpack_pack_le) simp
  show "unpack_IIIIIIII (pack_le 4 v0 @ pack_le 4 v1 @ pack_le 4 v2 @ pack_le 4 v3
                  @ pack_le 4 v4 @ pack_le 4 v5 @ pack_le 4 v6 @ pack_le 4 v7)
           = Inr [v0, v1, v2, v3, v4, v5, v6, v7]"
    using assms by (simp add: unpack_IIIIIIII_def upt_0_8 u)
qed

lemma set_added_segment_headers_explicit:
  assumes tag: "py_slice (ncontent p) 0x34 (0x34 + int (length patched_tag)) = patched_tag"
    and ohe: "original_header_end p = Some k" "0x2e \<le> k" "k + 64 \<le> length (ncontent p)"
    and cs: "added_code_file_start p = Some cs" "cs < 2 ^ 32"
    and ds: "added_data_file_start p = Some ds" "ds < 2 ^ 32"
    and lc: "length (added_code p) < 2 ^ 32" and ld: "length (added_data p) < 2 ^ 32"
    and cnt: "unpack_le (take 2 (drop 0x2c (ncontent p))) + 2 < 2 ^ 16"
  shows "\<exists>c'. set_added_segment_headers p = Inr (p\<lparr>ncontent := c'\<rparr>)
           \<and> length c' = length (ncontent p)
           \<and> unpack_IIIIIIII (take 32 (drop k c'))
               = Inr [1, cs, nat added_code_segment, 0, length (added_code p),
                      length (added_code p), 0x5, 0x0]
           \<and> unpack_IIIIIIII (take 32 (drop (k + 32) c'))
               = Inr [1, ds, nat added_data_segment, 0, length (added_data p),
                      length (added_data p), 0x6, 0x0]
           \<and> unpack_le (take 2 (drop 0x2c c'))
               = unpack_le (take 2 (drop 0x2c (ncontent p))) + 2"
proof -
  let ?c = "ncontent p"
  define cb where "cb = pack_le 4 1 @ pack_le 4 cs @ pack_le 4 (nat added_code_segment)
     @ pack_le 4 0 @ pack_le 4 (length (added_code p)) @ pack_le 4 (length (added_code p))
     @ pack_le 4 0x5 @ pack_le 4 0x0"
  define db where "db = pack_le 4 1 @ pack_le 4 ds @ pack_le 4 (nat added_data_segment)
     @ pack_le 4 0 @ pack_le 4 (length (added_data p)) @ pack_le 4 (length (added_data p))
     @ pack_le 4 0x6 @ pack_le 4 0x0"
  define c1 where "c1 = str_overwrite ?c cb (Some k)"
  define c2 where "c2 = str_overwrite c1 db (Some (k + 32))"
  define n where "n = unpack_le (take 2 (drop 0x2c ?c))"
  define c3 where "c3 = str_overwrite c2 (pack_le 2 (n + 2)) (Some 0x2c)"
  have seg: "nat added_code_segment < 2 ^ 32" "nat added_data_segment < 2 ^ 32"
    by (simp_all add: added_code_segment_def added_data_segment_def)
  have pc: "pack_IIIIIIII [Some 1, Some cs, Some (nat added_code_segment), Some 0,
              Some (length (added_code p)), Some (length (added_code p)), Some 0x5, Some 0x0]
            = Inr cb"
    unfolding cb_def using cs(2) lc seg by (intro unpack_pack_IIIIIIII(1)) simp_all
  have pd: "pack_IIIIIIII [Some 1, Some ds, Some (nat added_data_segment), Some 0,
              Some (length (added_data p)), Some (length (added_data p)), Some 0x6, Some 0x0]
            = Inr db"
    unfolding db_def using ds(2) ld seg by (intro unpack_pack_IIIIIIII(1)) simp_all
  have uc: "unpack_IIIIIIII cb = Inr [1, cs, nat added_code_segment, 0, length (added_code p),
              length (added_code p), 0x5, 0x0]"
    unfolding cb_def using cs(2) lc seg by (intro unpack_pack_IIIIIIII(2)) simp_all
  have ud: "unpack_IIIIIIII db = Inr [1, ds, nat added_data_segment, 0, length (added_data p),
              length (added_data p), 0x6, 0x0]"
    unfolding db_def using ds(2) ld seg by (intro unpack_pack_IIIIIIII(2)) simp_all
  have lcb: "length cb = 32" and ldb: "length db = 32" by (simp_all add: cb_def db_def)
  have l1: "length c1 = length ?c"
    unfolding c1_def using ohe(3) lcb by (intro length_str_overwrite) simp
  have l2: "length c2 = length ?c"
    unfolding c2_def using ohe(3) ldb l1 by (simp add: length_str_overwrite)
  have l3: "length c3 = length ?c"
    unfolding c3_def using ohe(2,3) l2 by (simp add: length_str_overwrite)
  have "take 2 (drop 0x2c c2) = take 2 (drop 0x2c c1)"
    unfolding c2_def using ohe l1 by (intro slice_str_overwrite_before) simp_all
  also have "\<dots> = take 2 (drop 0x2c ?c)"
    unfolding c1_def using ohe by (intro slice_str_overwrite_before) simp_all
  finally have s2: "take 2 (drop 0x2c c2) = take 2 (drop 0x2c ?c)" .
  have ps: "py_slice c2 0x2c (0x2c + 2) = take 2 (drop 0x2c c2)"
    by (simp add: py_slice_nonneg)
  have l22: "length (take 2 (drop 0x2c c2)) = 2" using l2 ohe by simp
  have uh: "unpack_H (py_slice c2 0x2c (0x2c + 2)) = Inr n"
    unfolding ps using l22 by (simp add: unpack_H_def n_def s2)
  have ph: "pack_H (n + 2) = Inr (pack_le 2 (n + 2))"
    using cnt by (simp add: pack_H_def n_def)
  have run: "set_added_segment_headers p = Inr (p\<lparr>ncontent := c3\<rparr>)"
    unfolding set_added_segment_headers_def Let_def cs(1) ds(1) pc pd ohe(1)
    using tag uh ph by (simp add: c1_def c2_def c3_def)
  have h1: "take 32 (drop k c3) = cb"
  proof -
    have "take 32 (drop k c3) = take 32 (drop k c2)"
      unfolding c3_def using ohe l2 by (intro slice_str_overwrite_behind) simp_all
    also have "\<dots> = take 32 (drop k c1)"
      unfolding c2_def using ohe l1 by (intro slice_str_overwrite_before) simp_all
    also have "\<dots> = cb"
      unfolding c1_def using slice_str_overwrite_same [of k ?c cb] ohe lcb by simp
    finally show ?thesis .
  qed
  have h2: "take 32 (drop (k + 32) c3) = db"
  proof -
    have "take 32 (drop (k + 32) c3) = take 32 (drop (k + 32) c2)"
      unfolding c3_def using ohe l2 by (intro slice_str_overwrite_behind) simp_all
    also have "\<dots> = db"
      unfolding c2_def using slice_str_overwrite_same [of "k + 32" c1 db] ohe ldb l1 by simp
    finally show ?thesis .
  qed
  have h3: "unpack_le (take 2 (drop 0x2c c3)) = n + 2"
  proof -
    have "take 2 (drop 0x2c c3) = pack_le 2 (n + 2)"
      unfolding c3_def
      using slice_str_overwrite_same [of "0x2c" c2 "pack_le 2 (n + 2)"] ohe l2 by simp
    moreover have "unpack_le (pack_le 2 (n + 2)) = n + 2"
      using cnt by (intro unpack_pack_le) (simp add: n_def)
    ultimately show ?thesis by simp
  qed
  show ?thesis
    using run l3 h1 h2 h3 uc ud by (intro exI [of _ c3]) (simp add: n_def)
qed

lemma example_block1_first:
  "factory_block example_env 0x8048100 (Some 1) = \<lparr>block_size = 1, block_bytes = [CHR 0x55]\<rparr>"
  "factory_block example_env 0x8048100 (Some (Suc 0))
     = \<lparr>block_size = 1, block_bytes = [CHR 0x55]\<rparr>"
  by (simp_all add: example_env_def example_factory_block_def example_block_start_def
      example_block1_def py_hex_eval)

lemma length_patched_tag: "length patched_tag = 11"
  by (simp add: patched_tag_def)

lemma example_assemble_ret: "example_assemble ''ret'' = [CHR 0xc3]"
  by (simp add: example_assemble_def py_split_nl_def)

lemma example_assemble_nop: "example_assemble ''nop'' = [CHR 0x90]"
  by (simp add: example_assemble_def py_split_nl_def)

lemma example_compile_regions:
  assumes m: "is_patched p0" and l: "length (ncontent p0) = 816"
    and k: "original_header_end p0 = Some 816"
    and n: "take 2 (drop 0x2c (ncontent p0)) = [CHR 0x01, CHR 0x00]"
  shows "\<exists>p5. compile_regions example_env (p0\<lparr>patches := example_patches\<rparr>) = Inr p5
           \<and> added_code p5 = [CHR 0xc3]
           \<and> added_data p5 = ''hello'' @ [CHR 0x00]
           \<and> added_code_file_start p5 = Some 0x2000
           \<and> added_data_file_start p5 = Some 0x1000
           \<and> original_header_end p5 = Some 816
           \<and> length (ncontent p5) = 0x2000
           \<and> py_slice (ncontent p5) 0x34 (0x34 + int (length patched_tag)) = patched_tag
           \<and> take 2 (drop 0x2c (ncontent p5)) = [CHR 0x01, CHR 0x00]
           \<and> take 1 (drop 0x100 (ncontent p5)) = [CHR 0x90]
           \<and> patches p5 = example_patches
           \<and> name_map p5 ''msg'' = Some 0x09100000
           \<and> name_map p5 ''f'' = Some 0x09000000"
proof -
  have t: "take 11 (drop 52 (ncontent p0)) = patched_tag"
    using m by (simp add: is_patched_def py_slice_nonneg length_patched_tag)
  show ?thesis
    using l k n t
    by (simp add: compile_regions_def Let_def compile_reset_def example_patches_def
        round_up_to_page_def ljust_def pad_str_def str_overwrite_def bind_name_def
        example_env_def [THEN arg_cong, of compile_asm]
        example_env_def [THEN arg_cong, of compile_asm_fake_symbol]
        example_env_def [THEN arg_cong, of addr_to_offset]
        example_assemble_ret example_assemble_nop example_block1_first
        added_code_segment_def added_data_segment_def py_slice_nonneg
        drop_take min_def length_patched_tag)
qed

lemma apply_insert_code_no_detours:
  "\<forall>a c n. InsertCodePatch a c n \<notin> set ps \<Longrightarrow> apply_insert_code e p ps = Some (Inr p)"
proof (induction e p ps rule: apply_insert_code.induct)
  case (2 e p addr_v code_v name_v rest)
  have "InsertCodePatch addr_v code_v name_v \<in> set (InsertCodePatch addr_v code_v name_v # rest)"
    by simp
  with "2.prems" show ?case by blast
qed simp_all

lemma example_registered:
  "patches p0 = [] \<Longrightarrow>
   replace_instruction_asm
     (add_code (add_data p0 (''hello'' @ [CHR 0x00]) (Some ''msg'')) ''ret'' (Some ''f''))
     0x8048100 ''nop'' None
   = p0\<lparr>patches := example_patches\<rparr>"
  by (simp add: replace_instruction_asm_def add_code_def add_data_def example_patches_def)

lemma example_compile_patches:
  "\<exists>p0 p5 p6.
      new_patcher example_env example_image = Inr p0
      \<and> compile_regions example_env (p0\<lparr>patches := example_patches\<rparr>) = Inr p5
      \<and> set_added_segment_headers p5 = Inr p6
      \<and> compile_patches example_env (p0\<lparr>patches := example_patches\<rparr>) = Some (Inr p6)
      \<and> patches p0 = []
      \<and> original_header_end p5 = Some 816
      \<and> length (ncontent p5) = 0x2000
      \<and> added_code_file_start p5 = Some 0x2000
      \<and> added_code p6 = [CHR 0xc3]
      \<and> added_code_file_start p6 = Some 0x2000
      \<and> length (ncontent p6) = 0x2000
      \<and> take 1 (drop 0x100 (ncontent p5)) = [CHR 0x90]
      \<and> name_map p6 ''msg'' = Some 0x09100000
      \<and> name_map p6 ''f'' = Some 0x09000000"
proof -
  from example_new_patcher obtain p0 where
    p0: "new_patcher example_env example_image = Inr p0" "is_patched p0"
      "length (ncontent p0) = 816" "original_header_end p0 = Some 816"
      "take 2 (drop 0x2c (ncontent p0)) = [CHR 0x01, CHR 0x00]" "patches p0 = []"
    by blast
  from example_compile_regions [OF p0(2,3,4,5)] obtain p5 where
    p5: "compile_regions example_env (p0\<lparr>patches := example_patches\<rparr>) = Inr p5"
      "added_code p5 = [CHR 0xc3]" "added_data p5 = ''hello'' @ [CHR 0x00]"
      "added_code_file_start p5 = Some 0x2000" "added_data_file_start p5 = Some 0x1000"
      "original_header_end p5 = Some 816" "length (ncontent p5) = 0x2000"
      "py_slice (ncontent p5) 0x34 (0x34 + int (length patched_tag)) = patched_tag"
      "take 2 (drop 0x2c (ncontent p5)) = [CHR 0x01, CHR 0x00]"
      "take 1 (drop 0x100 (ncontent p5)) = [CHR 0x90]"
      "patches p5 = example_patches"
      "name_map p5 ''msg'' = Some 0x09100000" "name_map p5 ''f'' = Some 0x09000000"
    by blast
  have "\<exists>c'. set_added_segment_headers p5 = Inr (p5\<lparr>ncontent := c'\<rparr>)
           \<and> length c' = length (ncontent p5)
           \<and> unpack_IIIIIIII (take 32 (drop 816 c'))
               = Inr [1, 0x2000, nat added_code_segment, 0, length (added_code p5),
                      length (added_code p5), 0x5, 0x0]
           \<and> unpack_IIIIIIII (take 32 (drop (816 + 32) c'))
               = Inr [1, 0x1000, nat added_data_segment, 0, length (added_data p5),
                      length (added_data p5), 0x6, 0x0]
           \<and> unpack_le (take 2 (drop 0x2c c'))
               = unpack_le (take 2 (drop 0x2c (ncontent p5))) + 2"
    by (rule set_added_segment_headers_explicit [OF p5(8) p5(6) _ _ p5(4) _ p5(5)])
       (simp_all add: p5)
  then obtain c' where
    c': "set_added_segment_headers p5 = Inr (p5\<lparr>ncontent := c'\<rparr>)"
      "length c' = length (ncontent p5)" by blast
  have nd: "\<forall>a c n. InsertCodePatch a c n \<notin> set example_patches"
    by (simp add: example_patches_def)
  have run: "compile_patches example_env (p0\<lparr>patches := example_patches\<rparr>)
               = Some (Inr (p5\<lparr>ncontent := c'\<rparr>))"
    using nd by (simp add: compile_patches_def p5(1) c'(1) p5(11) apply_insert_code_no_detours)
  show ?thesis
    using p0(1,6) p5 c' run
    by (intro exI [of _ p0] exI [of _ p5] exI [of _ "p5\<lparr>ncontent := c'\<rparr>"]) simp
qed





section \<open>The added-segment headers and the detours\<close>



section \<open>Inline replacements\<close>









section \<open>The added code and the image\<close>

text \<open>
  C1: the second loop over the \<^verbatim>\<open>AddCodePatch\<close>es calls \<^verbatim>\<open>utils.str_overwrite(self.ncontent,
  new_code)\<close> and drops the string it returns, so no assembled byte reaches \<^verbatim>\<open>ncontent\<close>. On
  the example image with the three example patches registered, \<^verbatim>\<open>compile_patches\<close> returns
  with \<^verbatim>\<open>added_code\<close> the one byte of \<^verbatim>\<open>ret\<close> and \<^verbatim>\<open>added_code_file_start = 0x2000\<close>, while
  the saved image is \<^verbatim>\<open>0x2000\<close> bytes long: it ends where the code region should begin, and
  its slice at the code region is empty.
\<close>

theorem added_code_missing_from_image:
  "\<exists>p0 p6.
      new_patcher example_env example_image = Inr p0
      \<and> compile_patches example_env
           (replace_instruction_asm
              (add_code (add_data p0 (''hello'' @ [CHR 0x00]) (Some ''msg'')) ''ret'' (Some ''f''))
              0x8048100 ''nop'' None) = Some (Inr p6)
      \<and> added_code p6 = [CHR 0xc3]
      \<and> added_code_file_start p6 = Some 0x2000
      \<and> length (save p6) = 0x2000
      \<and> py_slice (save p6) 0x2000 (0x2000 + int (length (added_code p6))) = []
      \<and> py_slice (save p6) 0x2000 (0x2000 + int (length (added_code p6))) \<noteq> added_code p6"
proof -
  from example_compile_patches obtain p0 p6 where
    h: "new_patcher example_env example_image = Inr p0"
      "compile_patches example_env (p0\<lparr>patches := example_patches\<rparr>) = Some (Inr p6)"
      "patches p0 = []" "added_code p6 = [CHR 0xc3]" "added_code_file_start p6 = Some 0x2000"
      "length (ncontent p6) = 0x2000"
    by blast
  have s: "py_slice (save p6) 0x2000 (0x2000 + int (length (added_code p6))) = []"
    using h(4,6) by (simp add: py_slice_nonneg save_def)
  have r: "replace_instruction_asm
              (add_code (add_data p0 (''hello'' @ [CHR 0x00]) (Some ''msg'')) ''ret'' (Some ''f''))
              0x8048100 ''nop'' None = p0\<lparr>patches := example_patches\<rparr>"
    by (rule example_registered [OF h(3)])
  show ?thesis
    apply (rule exI [of _ p0])
    apply (rule exI [of _ p6])
    unfolding r using h s by (simp add: save_def)
qed


end
